theory Spec2Isabelle
  imports Main "HOL-Library.AList" "HOL-Library.List_Lexorder" "HOL-Library.Word"
begin

section \<open>Text, bytes and paths\<close>

text \<open>
  A Python \<open>str\<close> is a sequence of Unicode code points and \<open>len\<close>, slicing and comparison
  work on code points, so a \<open>str\<close> is a list of naturals here; \<open>lit\<close> reads a literal.
  \<open>bytes\<close> is a list of octets. Comparison of lists is lexicographic (List_Lexorder), which
  is Python's order on \<open>str\<close>.
\<close>

type_synonym str = "nat list"
type_synonym bytes = "8 word list"

definition lit :: "string \<Rightarrow> str" where
  "lit s = map of_char s"

abbreviation dot :: nat where "dot \<equiv> 46"
abbreviation slash :: nat where "slash \<equiv> 47"

text \<open>
  \<open>str.lower()\<close>: the ASCII capitals are mapped to their small letters. The lower-case table
  of the code points beyond ASCII is not reproduced (they are left as they are); every key
  of the format table is ASCII.
\<close>

definition lower_cp :: "nat \<Rightarrow> nat" where
  "lower_cp c = (if 65 \<le> c \<and> c \<le> 90 then c + 32 else c)"

definition lower :: "str \<Rightarrow> str" where
  "lower s = map lower_cp s"

text \<open>\<open>s.lstrip(".")\<close>\<close>

definition lstrip :: "nat \<Rightarrow> str \<Rightarrow> str" where
  "lstrip c s = dropWhile (\<lambda>x. x = c) s"

text \<open>\<open>sep.join(xs)\<close>\<close>

fun join :: "str \<Rightarrow> str list \<Rightarrow> str" where
  "join sep [] = []"
| "join sep [x] = x"
| "join sep (x # y # ys) = x @ sep @ join sep (y # ys)"

text \<open>\<open>s.split(c)\<close> for a one-character separator.\<close>

fun split_on :: "nat \<Rightarrow> str \<Rightarrow> str list" where
  "split_on c [] = [[]]"
| "split_on c (x # xs) =
     (if x = c then [] # split_on c xs
      else (case split_on c xs of [] \<Rightarrow> [[x]] | y # ys \<Rightarrow> (x # y) # ys))"

text \<open>\<open>s.rfind(c)\<close>: the index of the last occurrence, \<open>-1\<close> when there is none.\<close>

primrec rfind_from :: "nat \<Rightarrow> str \<Rightarrow> int \<Rightarrow> int \<Rightarrow> int" where
  "rfind_from c [] i r = r"
| "rfind_from c (x # xs) i r = rfind_from c xs (i + 1) (if x = c then i else r)"

definition rfind :: "nat \<Rightarrow> str \<Rightarrow> int" where
  "rfind c s = rfind_from c s 0 (- 1)"

text \<open>
  \<open>pathlib\<close> on a POSIX system. A path text is cut at \<open>/\<close>; empty components and \<open>.\<close>
  are dropped. \<open>Path(p).name\<close> is the last component (empty when there is none),
  \<open>Path(p).suffix\<close> is the name from its last dot on, provided that dot is neither the first
  nor the last character of the name, and \<open>Path(p).stem\<close> is the name without the suffix.
\<close>

definition parts :: "str \<Rightarrow> str list" where
  "parts p = filter (\<lambda>c. c \<noteq> [] \<and> c \<noteq> [dot]) (split_on slash p)"

definition is_absolute :: "str \<Rightarrow> bool" where
  "is_absolute p = (case p of [] \<Rightarrow> False | x # _ \<Rightarrow> x = slash)"

definition path_name :: "str \<Rightarrow> str" where
  "path_name p = (case parts p of [] \<Rightarrow> [] | c # cs \<Rightarrow> last (c # cs))"

definition name_suffix :: "str \<Rightarrow> str" where
  "name_suffix name =
     (let i = rfind dot name
      in if 0 < i \<and> i < int (length name) - 1 then drop (nat i) name else [])"

definition name_stem :: "str \<Rightarrow> str" where
  "name_stem name =
     (let i = rfind dot name
      in if 0 < i \<and> i < int (length name) - 1 then take (nat i) name else name)"

definition path_suffix :: "str \<Rightarrow> str" where
  "path_suffix p = name_suffix (path_name p)"

definition path_stem :: "str \<Rightarrow> str" where
  "path_stem p = name_stem (path_name p)"

text \<open>\<open>str(n)\<close> for an integer, as an f-string prints it.\<close>

fun digits :: "nat \<Rightarrow> str" where
  "digits n = (if n < 10 then [48 + n] else digits (n div 10) @ [48 + n mod 10])"

declare digits.simps [simp del]

definition str_of_int :: "int \<Rightarrow> str" where
  "str_of_int i = (if i < 0 then 45 # digits (nat (- i)) else digits (nat i))"

section \<open>Format definitions\<close>

text \<open>
  \<open>CONVERSIONS\<close>: input extension, then output extension, then the pair of the engine's
  filter name and the MIME type. A Python dict keeps its keys in the order of the literal,
  so it is an association list.
\<close>

type_synonym rule = "str \<times> str"

definition CONVERSIONS :: "(str \<times> (str \<times> rule) list) list" where
  "CONVERSIONS =
    [(lit ''doc'',
       [
        (lit ''docx'', (lit ''MS Word 2007 XML'',
           lit ''application/vnd.openxmlformats-officedocument.wordprocessingml.document'')),
        (lit ''pdf'', (lit ''writer_pdf_Export'',
           lit ''application/pdf'')),
        (lit ''odt'', (lit ''writer8'',
           lit ''application/vnd.oasis.opendocument.text'')),
        (lit ''txt'', (lit ''Text'',
           lit ''text/plain'')),
        (lit ''rtf'', (lit ''Rich Text Format'',
           lit ''application/rtf'')),
        (lit ''html'', (lit ''HTML (StarWriter)'',
           lit ''text/html''))]),
     (lit ''docx'',
       [
        (lit ''doc'', (lit ''MS Word 97'',
           lit ''application/msword'')),
        (lit ''pdf'', (lit ''writer_pdf_Export'',
           lit ''application/pdf'')),
        (lit ''odt'', (lit ''writer8'',
           lit ''application/vnd.oasis.opendocument.text'')),
        (lit ''txt'', (lit ''Text'',
           lit ''text/plain'')),
        (lit ''rtf'', (lit ''Rich Text Format'',
           lit ''application/rtf'')),
        (lit ''html'', (lit ''HTML (StarWriter)'',
           lit ''text/html''))]),
     (lit ''odt'',
       [
        (lit ''doc'', (lit ''MS Word 97'',
           lit ''application/msword'')),
        (lit ''docx'', (lit ''MS Word 2007 XML'',
           lit ''application/vnd.openxmlformats-officedocument.wordprocessingml.document'')),
        (lit ''pdf'', (lit ''writer_pdf_Export'',
           lit ''application/pdf'')),
        (lit ''txt'', (lit ''Text'',
           lit ''text/plain'')),
        (lit ''rtf'', (lit ''Rich Text Format'',
           lit ''application/rtf'')),
        (lit ''html'', (lit ''HTML (StarWriter)'',
           lit ''text/html''))]),
     (lit ''rtf'',
       [
        (lit ''doc'', (lit ''MS Word 97'',
           lit ''application/msword'')),
        (lit ''docx'', (lit ''MS Word 2007 XML'',
           lit ''application/vnd.openxmlformats-officedocument.wordprocessingml.document'')),
        (lit ''pdf'', (lit ''writer_pdf_Export'',
           lit ''application/pdf'')),
        (lit ''odt'', (lit ''writer8'',
           lit ''application/vnd.oasis.opendocument.text''))]),
     (lit ''xls'',
       [
        (lit ''xlsx'', (lit ''Calc MS Excel 2007 XML'',
           lit ''application/vnd.openxmlformats-officedocument.spreadsheetml.sheet'')),
        (lit ''pdf'', (lit ''calc_pdf_Export'',
           lit ''application/pdf'')),
        (lit ''ods'', (lit ''calc8'',
           lit ''application/vnd.oasis.opendocument.spreadsheet'')),
        (lit ''csv'', (lit ''Text - txt - csv (StarCalc):44,34,76'',
           lit ''text/csv''))]),
     (lit ''xlsx'',
       [
        (lit ''xls'', (lit ''MS Excel 97'',
           lit ''application/vnd.ms-excel'')),
        (lit ''pdf'', (lit ''calc_pdf_Export'',
           lit ''application/pdf'')),
        (lit ''ods'', (lit ''calc8'',
           lit ''application/vnd.oasis.opendocument.spreadsheet'')),
        (lit ''csv'', (lit ''Text - txt - csv (StarCalc):44,34,76'',
           lit ''text/csv''))]),
     (lit ''ods'',
       [
        (lit ''xls'', (lit ''MS Excel 97'',
           lit ''application/vnd.ms-excel'')),
        (lit ''xlsx'', (lit ''Calc MS Excel 2007 XML'',
           lit ''application/vnd.openxmlformats-officedocument.spreadsheetml.sheet'')),
        (lit ''pdf'', (lit ''calc_pdf_Export'',
           lit ''application/pdf'')),
        (lit ''csv'', (lit ''Text - txt - csv (StarCalc):44,34,76'',
           lit ''text/csv''))]),
     (lit ''csv'',
       [
        (lit ''xls'', (lit ''MS Excel 97'',
           lit ''application/vnd.ms-excel'')),
        (lit ''xlsx'', (lit ''Calc MS Excel 2007 XML'',
           lit ''application/vnd.openxmlformats-officedocument.spreadsheetml.sheet'')),
        (lit ''ods'', (lit ''calc8'',
           lit ''application/vnd.oasis.opendocument.spreadsheet''))]),
     (lit ''ppt'',
       [
        (lit ''pptx'', (lit ''Impress MS PowerPoint 2007 XML'',
           lit ''application/vnd.openxmlformats-officedocument.presentationml.presentation'')),
        (lit ''pdf'', (lit ''impress_pdf_Export'',
           lit ''application/pdf'')),
        (lit ''odp'', (lit ''impress8'',
           lit ''application/vnd.oasis.opendocument.presentation''))]),
     (lit ''pptx'',
       [
        (lit ''ppt'', (lit ''MS PowerPoint 97'',
           lit ''application/vnd.ms-powerpoint'')),
        (lit ''pdf'', (lit ''impress_pdf_Export'',
           lit ''application/pdf'')),
        (lit ''odp'', (lit ''impress8'',
           lit ''application/vnd.oasis.opendocument.presentation''))]),
     (lit ''odp'',
       [
        (lit ''ppt'', (lit ''MS PowerPoint 97'',
           lit ''application/vnd.ms-powerpoint'')),
        (lit ''pptx'', (lit ''Impress MS PowerPoint 2007 XML'',
           lit ''application/vnd.openxmlformats-officedocument.presentationml.presentation'')),
        (lit ''pdf'', (lit ''impress_pdf_Export'',
           lit ''application/pdf''))])]"


definition keys :: "('k \<times> 'v) list \<Rightarrow> 'k list" where
  "keys d = map fst d"

text \<open>\<open>CONVERSIONS.get(input_ext, {})\<close>\<close>

definition outputs_of :: "str \<Rightarrow> (str \<times> rule) list" where
  "outputs_of input_ext = (case map_of CONVERSIONS input_ext of None \<Rightarrow> [] | Some outs \<Rightarrow> outs)"

text \<open>A text of small ASCII letters only.\<close>

definition letters :: "str \<Rightarrow> bool" where
  "letters s = (\<forall>c \<in> set s. 97 \<le> c \<and> c \<le> 122)"

text \<open>\<open>list_formats\<close>: every input extension with the output extensions of its entry.\<close>

definition list_formats :: "(str \<times> str list) list" where
  "list_formats = map (\<lambda>(input_fmt, outputs). (input_fmt, keys outputs)) CONVERSIONS"

section \<open>Exceptions, configuration, requests\<close>

text \<open>
  \<open>HTTPException(status, detail)\<close> is what the handler raises on purpose; \<open>Uncaught\<close> is
  any other Python exception that leaves the handler, named by its class.
\<close>

datatype exn = HTTPException int str | Uncaught string

datatype 'a result = Return 'a | Raise exn | Wait

record config =
  TIMEOUT :: int
  MAX_FILE_SIZE :: int
  MAX_CONCURRENT :: int

record upload_file =
  filename :: "str option"
  body :: bytes

record response =
  content :: bytes
  media_type :: str
  content_disposition :: str

definition get_input_ext :: "str \<Rightarrow> exn + str" where
  "get_input_ext fname =
     (let ext = lstrip dot (lower (path_suffix fname))
      in if ext \<notin> set (keys CONVERSIONS)
         then Inl (HTTPException 400
                (lit ''Unsupported input format: .'' @ ext @ lit ''. Supported: ''
                   @ join (lit '', '') (sort (keys CONVERSIONS))))
         else Inr ext)"

text \<open>
  The validation part of \<open>convert\<close>, up to the point where the conversion rule is taken from
  the table: the file name, the input extension, the pair, then the payload is read and its
  size compared with \<open>MAX_FILE_SIZE\<close>. The record \<open>resolved\<close> holds the local variables the
  rest of the handler uses.
\<close>

record resolved =
  input_name :: str
  input_ext :: str
  output_ext :: str
  filter_name :: str
  mime_type :: str
  file_content :: bytes
  input_size :: int

definition check_pair :: "upload_file \<Rightarrow> str \<Rightarrow> exn + (str \<times> str \<times> str \<times> rule)" where
  "check_pair file to =
     (case filename file of
        None \<Rightarrow> Inl (HTTPException 400 (lit ''Filename required''))
      | Some fname \<Rightarrow>
          if fname = [] then Inl (HTTPException 400 (lit ''Filename required''))
          else
            (case get_input_ext fname of
               Inl e \<Rightarrow> Inl e
             | Inr ie \<Rightarrow>
                 (let oe = lstrip dot (lower to)
                  in case map_of (outputs_of ie) oe of
                       None \<Rightarrow>
                         Inl (HTTPException 400
                           (lit ''Cannot convert .'' @ ie @ lit '' to .'' @ oe
                              @ lit ''. Available: ''
                              @ join (lit '', '') (sort (keys (outputs_of ie)))))
                     | Some r \<Rightarrow> Inr (fname, ie, oe, r))))"

definition validate :: "config \<Rightarrow> upload_file \<Rightarrow> str \<Rightarrow> exn + resolved" where
  "validate cfg file to =
     (case check_pair file to of
        Inl e \<Rightarrow> Inl e
      | Inr (fname, ie, oe, r) \<Rightarrow>
          (let data = body file; n = int (length data)
           in if n > MAX_FILE_SIZE cfg
              then Inl (HTTPException 413
                     (lit ''File too large: '' @ str_of_int n @ lit '' bytes. Max: ''
                        @ str_of_int (MAX_FILE_SIZE cfg) @ lit '' bytes''))
              else Inr \<lparr>input_name = fname, input_ext = ie, output_ext = oe,
                        filter_name = fst r, mime_type = snd r, file_content = data,
                        input_size = n\<rparr>))"

definition convert_to_arg :: "str \<Rightarrow> str \<Rightarrow> str" where
  "convert_to_arg oe fltr = (if fltr \<noteq> [] then oe @ lit '':'' @ fltr else oe)"

section \<open>Logging\<close>

text \<open>
  \<open>log_event(event, **kwargs)\<close> builds one log record whose \<open>extra\<close> is the event name
  followed by the keyword arguments, and hands it to the logger's handler. The record goes
  through \<open>logger.handle\<close>, which does not look at the logger's level, so every call emits
  exactly one record: the log is the list of the records emitted so far.
\<close>

datatype val = S str | I int

type_synonym event = "(string \<times> val) list"

definition log_record :: "str \<Rightarrow> (string \<times> val) list \<Rightarrow> event" where
  "log_record ev kwargs = (''event'', S ev) # kwargs"

section \<open>Concurrency control\<close>

text \<open>
  \<open>asyncio.Semaphore\<close>: the counter \<open>_value\<close> and the number of waiters that are queued
  and not cancelled. \<open>locked()\<close> holds when the counter is zero or somebody is queued;
  \<open>acquire()\<close> takes a permit at once when the semaphore is not locked and queues the caller
  otherwise; \<open>release()\<close> hands the permit to a queued waiter when there is one and puts it
  back into the counter otherwise. The constructor refuses a negative capacity.
\<close>

record semaphore =
  sem_value :: int
  sem_waiters :: nat

definition Semaphore :: "int \<Rightarrow> exn + semaphore" where
  "Semaphore n =
     (if n < 0 then Inl (Uncaught ''ValueError'')
      else Inr \<lparr>sem_value = n, sem_waiters = 0\<rparr>)"

definition locked :: "semaphore \<Rightarrow> bool" where
  "locked s = (sem_value s = 0 \<or> 0 < sem_waiters s)"

datatype acquisition = Acquired semaphore | Queued semaphore

definition acquire :: "semaphore \<Rightarrow> acquisition" where
  "acquire s =
     (if \<not> locked s then Acquired (s\<lparr>sem_value := sem_value s - 1\<rparr>)
      else Queued (s\<lparr>sem_waiters := sem_waiters s + 1\<rparr>))"

definition release :: "semaphore \<Rightarrow> semaphore" where
  "release s =
     (if 0 < sem_waiters s then s\<lparr>sem_waiters := sem_waiters s - 1\<rparr>
      else s\<lparr>sem_value := sem_value s + 1\<rparr>)"

text \<open>
  The test the handler makes before it enters \<open>async with conversion_semaphore\<close>:
  \<open>if not conversion_semaphore.locked() or conversion_semaphore._value > 0\<close>.
\<close>

definition can_proceed :: "semaphore \<Rightarrow> bool" where
  "can_proceed s = (\<not> locked s \<or> sem_value s > 0)"

section \<open>The file system, the engine and the clock\<close>

text \<open>
  A directory is the list of its entries in the order in which the system lists them; an
  entry is a file with its bytes or a subdirectory. The file system maps the path of a
  directory to its listing.
\<close>

datatype node = File bytes | Dir

type_synonym listing = "(str \<times> node) list"
type_synonym filesystem = "str \<Rightarrow> listing option"

text \<open>The three ways in which \<open>subprocess.run\<close> ends.\<close>

datatype process = TimeoutExpired | CompletedProcess int bytes | SpawnError

text \<open>
  What the handler gets from outside: the name \<open>mkdtemp\<close> chooses (none when it gives up),
  the directory in which the system resolves a file name that carries directory components
  of its own (none when that directory does not exist), the engine as a function of its
  argument vector, the time limit and the file system, and the measured duration.
\<close>

record environment =
  mkdtemp :: "filesystem \<Rightarrow> str option"
  resolve_dir :: "filesystem \<Rightarrow> str \<Rightarrow> str \<Rightarrow> str option"
  engine :: "str list \<Rightarrow> int \<Rightarrow> filesystem \<Rightarrow> process \<times> filesystem"
  duration_ms :: int

record world =
  conversion_semaphore :: semaphore
  disk :: filesystem
  logged :: "event list"

definition log_event :: "str \<Rightarrow> (string \<times> val) list \<Rightarrow> world \<Rightarrow> world" where
  "log_event ev kwargs w = w\<lparr>logged := logged w @ [log_record ev kwargs]\<rparr>"

text \<open>\<open>str(Path(tmpdir) / filename)\<close>\<close>

definition joinpath :: "str \<Rightarrow> str \<Rightarrow> str" where
  "joinpath d p =
     (if is_absolute p then slash # join [slash] (parts p)
      else if parts p = [] then d
      else d @ [slash] @ join [slash] (parts p))"

text \<open>
  \<open>open(input_path, "wb")\<close> and the write. A bare file name is created in the scratch
  directory itself. The path of a name with directory components is resolved by the system.
  A path that names a directory cannot be opened for writing.
\<close>

definition write_file :: "filesystem \<Rightarrow> str \<Rightarrow> str \<Rightarrow> bytes \<Rightarrow> exn + filesystem" where
  "write_file f d name data =
     (case f d of
        None \<Rightarrow> Inl (Uncaught ''FileNotFoundError'')
      | Some l \<Rightarrow>
          (case map_of l name of
             Some Dir \<Rightarrow> Inl (Uncaught ''IsADirectoryError'')
           | _ \<Rightarrow> Inr (f(d \<mapsto> AList.update name (File data) l))))"

definition stage_input ::
  "environment \<Rightarrow> filesystem \<Rightarrow> str \<Rightarrow> str \<Rightarrow> bytes \<Rightarrow> exn + filesystem" where
  "stage_input env f tmpdir fname data =
     (if path_name fname = [] \<or> path_name fname = [dot, dot]
      then Inl (Uncaught ''IsADirectoryError'')
      else if \<not> is_absolute fname \<and> length (parts fname) = 1
      then write_file f tmpdir (path_name fname) data
      else (case resolve_dir env f tmpdir fname of
              None \<Rightarrow> Inl (Uncaught ''FileNotFoundError'')
            | Some d \<Rightarrow> write_file f d (path_name fname) data))"

text \<open>
  \<open>Path(tmpdir).glob("*." + ext)\<close> for an extension without pattern characters: the entries
  of the directory whose name ends in a dot and the extension, in listing order; nothing
  when the directory does not exist.
\<close>

definition endswith :: "str \<Rightarrow> str \<Rightarrow> bool" where
  "endswith s t = (length t \<le> length s \<and> drop (length s - length t) s = t)"

definition glob_match :: "str \<Rightarrow> str \<Rightarrow> bool" where
  "glob_match ext name = endswith name (dot # ext)"

definition glob_ext :: "filesystem \<Rightarrow> str \<Rightarrow> str \<Rightarrow> listing" where
  "glob_ext f d ext =
     (case f d of None \<Rightarrow> [] | Some l \<Rightarrow> filter (\<lambda>e. glob_match ext (fst e)) l)"

text \<open>\<open>TemporaryDirectory.cleanup\<close>: the directory goes with everything in it.\<close>

definition rmtree :: "filesystem \<Rightarrow> str \<Rightarrow> filesystem" where
  "rmtree f d = f(d := None)"

text \<open>
  \<open>bytes.decode()\<close>: strict UTF-8. A byte sequence that is not well-formed UTF-8 (a stray
  continuation byte, an overlong form, a surrogate, a value above U+10FFFF, a sequence cut
  short) raises \<open>UnicodeDecodeError\<close>, which is \<open>None\<close> here.
\<close>

definition cont :: "nat \<Rightarrow> bool" where
  "cont b = (128 \<le> b \<and> b \<le> 191)"

fun utf8 :: "nat list \<Rightarrow> str option" where
  "utf8 [] = Some []"
| "utf8 (b0 # bs) =
     (if b0 < 128 then map_option ((#) b0) (utf8 bs)
      else if 194 \<le> b0 \<and> b0 \<le> 223 then
        (case bs of
           b1 # r \<Rightarrow>
             if cont b1
             then map_option ((#) ((b0 - 192) * 64 + (b1 - 128))) (utf8 r)
             else None
         | _ \<Rightarrow> None)
      else if 224 \<le> b0 \<and> b0 \<le> 239 then
        (case bs of
           b1 # b2 # r \<Rightarrow>
             if (if b0 = 224 then 160 else 128) \<le> b1
                \<and> b1 \<le> (if b0 = 237 then 159 else 191) \<and> cont b2
             then map_option
                    ((#) ((b0 - 224) * 4096 + (b1 - 128) * 64 + (b2 - 128))) (utf8 r)
             else None
         | _ \<Rightarrow> None)
      else if 240 \<le> b0 \<and> b0 \<le> 244 then
        (case bs of
           b1 # b2 # b3 # r \<Rightarrow>
             if (if b0 = 240 then 144 else 128) \<le> b1
                \<and> b1 \<le> (if b0 = 244 then 143 else 191) \<and> cont b2 \<and> cont b3
             then map_option
                    ((#) ((b0 - 240) * 262144 + (b1 - 128) * 4096 + (b2 - 128) * 64
                          + (b3 - 128))) (utf8 r)
             else None
         | _ \<Rightarrow> None)
      else None)"

definition decode :: "bytes \<Rightarrow> str option" where
  "decode bs = utf8 (map unat bs)"

section \<open>The endpoint\<close>

text \<open>
  The body of \<open>with tempfile.TemporaryDirectory() as tmpdir\<close>: the input is staged under its
  own file name, the engine runs, and the first entry that matches the output pattern is read
  back. The arguments of a \<open>log_event\<close> call are evaluated before the call, so a decoding
  error leaves before anything is logged.
\<close>

definition engine_argv :: "resolved \<Rightarrow> str \<Rightarrow> str list" where
  "engine_argv v tmpdir =
     [lit ''libreoffice'', lit ''--headless'', lit ''--convert-to'',
      convert_to_arg (output_ext v) (filter_name v), lit ''--outdir'', tmpdir,
      joinpath tmpdir (input_name v)]"

definition job_body ::
  "environment \<Rightarrow> config \<Rightarrow> str \<Rightarrow> resolved \<Rightarrow> str \<Rightarrow> world \<Rightarrow> bytes result \<times> world" where
  "job_body env cfg client_ip v tmpdir w =
     (case stage_input env (disk w) tmpdir (input_name v) (file_content v) of
        Inl e \<Rightarrow> (Raise e, w)
      | Inr f1 \<Rightarrow>
          (let run = engine env (engine_argv v tmpdir) (TIMEOUT cfg) f1;
               w2 = w\<lparr>disk := snd run\<rparr>
           in case fst run of
                SpawnError \<Rightarrow> (Raise (Uncaught ''OSError''), w2)
              | TimeoutExpired \<Rightarrow>
                  (Raise (HTTPException 504 (lit ''Conversion timed out'')),
                   log_event (lit ''conversion_timeout'')
                     [(''input_format'', S (input_ext v)),
                      (''output_format'', S (output_ext v)),
                      (''input_size_bytes'', I (input_size v)),
                      (''client_ip'', S client_ip)] w2)
              | CompletedProcess returncode stderr \<Rightarrow>
                  if returncode \<noteq> 0 then
                    (case decode stderr of
                       None \<Rightarrow> (Raise (Uncaught ''UnicodeDecodeError''), w2)
                     | Some text \<Rightarrow>
                         (Raise (HTTPException 500 (lit ''Conversion failed: '' @ text)),
                          log_event (lit ''conversion_error'')
                            [(''input_format'', S (input_ext v)),
                             (''output_format'', S (output_ext v)),
                             (''error'', S (take 500 text)),
                             (''client_ip'', S client_ip)] w2))
                  else
                    (case glob_ext (disk w2) tmpdir (output_ext v) of
                       [] \<Rightarrow>
                         (Raise (HTTPException 500 (lit ''Conversion produced no output'')), w2)
                     | (n, Dir) # _ \<Rightarrow> (Raise (Uncaught ''IsADirectoryError''), w2)
                     | (n, File data) # _ \<Rightarrow> (Return data, w2))))"

text \<open>
  \<open>with tempfile.TemporaryDirectory() as tmpdir\<close>: a fresh empty directory is made, the
  body runs, and the directory is removed however the body ends.
\<close>

definition with_tmpdir ::
  "environment \<Rightarrow> config \<Rightarrow> str \<Rightarrow> resolved \<Rightarrow> world \<Rightarrow> bytes result \<times> world" where
  "with_tmpdir env cfg client_ip v w =
     (case mkdtemp env (disk w) of
        None \<Rightarrow> (Raise (Uncaught ''FileExistsError''), w)
      | Some tmpdir \<Rightarrow>
          if disk w tmpdir \<noteq> None then (Raise (Uncaught ''FileExistsError''), w)
          else
            (let r = job_body env cfg client_ip v tmpdir (w\<lparr>disk := (disk w)(tmpdir \<mapsto> [])\<rparr>)
             in (fst r, (snd r)\<lparr>disk := rmtree (disk (snd r)) tmpdir\<rparr>)))"

text \<open>
  \<open>async with conversion_semaphore\<close>: a permit is acquired, the body runs, and the permit is
  released however the body ends. A caller that is queued has not returned.
\<close>

definition with_semaphore ::
  "environment \<Rightarrow> config \<Rightarrow> str \<Rightarrow> resolved \<Rightarrow> world \<Rightarrow> bytes result \<times> world" where
  "with_semaphore env cfg client_ip v w =
     (case acquire (conversion_semaphore w) of
        Queued s \<Rightarrow> (Wait, w\<lparr>conversion_semaphore := s\<rparr>)
      | Acquired s \<Rightarrow>
          (let r = with_tmpdir env cfg client_ip v (w\<lparr>conversion_semaphore := s\<rparr>)
           in (fst r,
               (snd r)\<lparr>conversion_semaphore := release (conversion_semaphore (snd r))\<rparr>)))"

text \<open>
  \<open>convert\<close>. The client address is computed first and only logged, so it is an argument.
  The character 34 is the double quote of the \<open>Content-Disposition\<close> header.
\<close>

definition convert ::
  "environment \<Rightarrow> config \<Rightarrow> str \<Rightarrow> upload_file \<Rightarrow> str \<Rightarrow> world \<Rightarrow> response result \<times> world" where
  "convert env cfg client_ip file to w =
     (case validate cfg file to of
        Inl e \<Rightarrow> (Raise e, w)
      | Inr v \<Rightarrow>
          if \<not> can_proceed (conversion_semaphore w)
          then (Raise (HTTPException 429
                  (lit ''Too many concurrent requests. Please retry later.'')), w)
          else
            (let r = with_semaphore env cfg client_ip v w
             in case fst r of
                  Wait \<Rightarrow> (Wait, snd r)
                | Raise e \<Rightarrow> (Raise e, snd r)
                | Return data \<Rightarrow>
                    (Return \<lparr>content = data, media_type = mime_type v,
                             content_disposition =
                               lit ''attachment; filename='' @ [34]
                                 @ path_stem (input_name v) @ [dot] @ output_ext v @ [34]\<rparr>,
                     log_event (lit ''conversion_complete'')
                       [(''input_format'', S (input_ext v)),
                        (''output_format'', S (output_ext v)),
                        (''input_size_bytes'', I (input_size v)),
                        (''output_size_bytes'', I (int (length data))),
                        (''duration_ms'', I (duration_ms env)),
                        (''client_ip'', S client_ip)] (snd r))))"

text \<open>The records one call of \<open>convert\<close> adds to the log.\<close>

definition emitted ::
  "environment \<Rightarrow> config \<Rightarrow> str \<Rightarrow> upload_file \<Rightarrow> str \<Rightarrow> world \<Rightarrow> event list" where
  "emitted env cfg client_ip file to w =
     drop (length (logged w)) (logged (snd (convert env cfg client_ip file to w)))"

section \<open>Requests in flight\<close>

text \<open>
  Requests are coroutines on one event loop: between the admission test and the acquisition
  inside \<open>async with\<close> there is no point at which another coroutine runs, so the arrival of a
  request is one step on the semaphore, and leaving the \<open>async with\<close> block is another.
  \<open>in_flight\<close> counts the requests that are inside the block. \<open>lifespan\<close> creates the
  semaphore with \<open>MAX_CONCURRENT\<close> permits.
\<close>

datatype arrival = Arrive | Finish

datatype verdict = Admitted | Rejected exn | Blocked | Released | Idle

record server =
  pool :: semaphore
  in_flight :: nat

definition lifespan :: "config \<Rightarrow> exn + server" where
  "lifespan cfg =
     (case Semaphore (MAX_CONCURRENT cfg) of
        Inl e \<Rightarrow> Inl e
      | Inr s \<Rightarrow> Inr \<lparr>pool = s, in_flight = 0\<rparr>)"

fun step :: "arrival \<Rightarrow> server \<Rightarrow> verdict \<times> server" where
  "step Arrive s =
     (if \<not> can_proceed (pool s)
      then (Rejected (HTTPException 429
              (lit ''Too many concurrent requests. Please retry later.'')), s)
      else (case acquire (pool s) of
              Acquired p \<Rightarrow> (Admitted, \<lparr>pool = p, in_flight = in_flight s + 1\<rparr>)
            | Queued p \<Rightarrow> (Blocked, s\<lparr>pool := p\<rparr>)))"
| "step Finish s =
     (if in_flight s = 0 then (Idle, s)
      else (Released, \<lparr>pool = release (pool s), in_flight = in_flight s - 1\<rparr>))"

fun run :: "arrival list \<Rightarrow> server \<Rightarrow> server" where
  "run [] s = s"
| "run (a # as) s = run as (snd (step a s))"

text \<open>The permits that are out: the capacity less the counter.\<close>

definition held :: "config \<Rightarrow> server \<Rightarrow> int" where
  "held cfg s = MAX_CONCURRENT cfg - sem_value (pool s)"

text \<open>
  What holds of the pool at every moment: nobody is queued, the counter is not negative, and
  the counter and the requests inside the block add up to the capacity.
\<close>

definition pool_inv :: "config \<Rightarrow> server \<Rightarrow> bool" where
  "pool_inv cfg s =
     (sem_waiters (pool s) = 0 \<and> 0 \<le> sem_value (pool s)
      \<and> sem_value (pool s) + int (in_flight s) = MAX_CONCURRENT cfg)"

section \<open>Example configurations\<close>

text \<open>The defaults of \<open>Config\<close>, an idle server with ten permits, and a quiet environment.\<close>

definition default_config :: config where
  "default_config = \<lparr>TIMEOUT = 300, MAX_FILE_SIZE = 524288000, MAX_CONCURRENT = 10\<rparr>"

definition scratch :: str where
  "scratch = lit ''/tmp/tmpjob''"

definition idle_world :: world where
  "idle_world =
     \<lparr>conversion_semaphore = \<lparr>sem_value = 10, sem_waiters = 0\<rparr>,
      disk = Map.empty, logged = []\<rparr>"

definition busy_world :: world where
  "busy_world =
     \<lparr>conversion_semaphore = \<lparr>sem_value = 0, sem_waiters = 0\<rparr>,
      disk = Map.empty, logged = []\<rparr>"

text \<open>
  Engines for the examples: one that writes \<open>report.pdf\<close> beside the input and exits with
  status 0, one that exits with status 0 and writes nothing, one that runs out of time, and
  one that exits with a status and an error text.
\<close>

definition writes_pdf :: "bytes \<Rightarrow> str list \<Rightarrow> int \<Rightarrow> filesystem \<Rightarrow> process \<times> filesystem" where
  "writes_pdf out argv t f =
     (CompletedProcess 0 [],
      (case f scratch of
         None \<Rightarrow> f
       | Some l \<Rightarrow> f(scratch \<mapsto> AList.update (lit ''report.pdf'') (File out) l)))"

definition writes_nothing :: "str list \<Rightarrow> int \<Rightarrow> filesystem \<Rightarrow> process \<times> filesystem" where
  "writes_nothing argv t f = (CompletedProcess 0 [], f)"

definition times_out :: "str list \<Rightarrow> int \<Rightarrow> filesystem \<Rightarrow> process \<times> filesystem" where
  "times_out argv t f = (TimeoutExpired, f)"

definition fails_with :: "int \<Rightarrow> bytes \<Rightarrow> str list \<Rightarrow> int \<Rightarrow> filesystem \<Rightarrow> process \<times> filesystem" where
  "fails_with rc err argv t f = (CompletedProcess rc err, f)"

definition env_with ::
  "(str list \<Rightarrow> int \<Rightarrow> filesystem \<Rightarrow> process \<times> filesystem) \<Rightarrow> environment" where
  "env_with e =
     \<lparr>mkdtemp = (\<lambda>f. Some scratch), resolve_dir = (\<lambda>f d p. None), engine = e,
      duration_ms = 1200\<rparr>"

definition ten_arrivals :: "arrival list" where
  "ten_arrivals = [Arrive, Arrive, Arrive, Arrive, Arrive, Arrive, Arrive, Arrive, Arrive, Arrive]"

definition report_to_pdf :: resolved where
  "report_to_pdf =
     \<lparr>input_name = lit ''report.docx'', input_ext = lit ''docx'', output_ext = lit ''pdf'',
      filter_name = lit ''writer_pdf_Export'', mime_type = lit ''application/pdf'',
      file_content = [80, 75, 3, 4], input_size = 4\<rparr>"

definition small_config :: config where
  "small_config = \<lparr>TIMEOUT = 300, MAX_FILE_SIZE = 4, MAX_CONCURRENT = 10\<rparr>"

definition report_docx :: upload_file where
  "report_docx = \<lparr>filename = Some (lit ''report.docx''), body = [80, 75, 3, 4]\<rparr>"

section \<open>Properties of the format table\<close>

lemma lit_eq_iff: "lit a = lit b \<longleftrightarrow> a = b"
  unfolding lit_def using inj_of_char [where ?'a = nat]
  by (metis inj_map_eq_map)

lemma list_formats_eq:
  "list_formats =
    [(lit ''doc'', [lit ''docx'', lit ''pdf'', lit ''odt'', lit ''txt'', lit ''rtf'', lit ''html'']),
     (lit ''docx'', [lit ''doc'', lit ''pdf'', lit ''odt'', lit ''txt'', lit ''rtf'', lit ''html'']),
     (lit ''odt'', [lit ''doc'', lit ''docx'', lit ''pdf'', lit ''txt'', lit ''rtf'', lit ''html'']),
     (lit ''rtf'', [lit ''doc'', lit ''docx'', lit ''pdf'', lit ''odt'']),
     (lit ''xls'', [lit ''xlsx'', lit ''pdf'', lit ''ods'', lit ''csv'']),
     (lit ''xlsx'', [lit ''xls'', lit ''pdf'', lit ''ods'', lit ''csv'']),
     (lit ''ods'', [lit ''xls'', lit ''xlsx'', lit ''pdf'', lit ''csv'']),
     (lit ''csv'', [lit ''xls'', lit ''xlsx'', lit ''ods'']),
     (lit ''ppt'', [lit ''pptx'', lit ''pdf'', lit ''odp'']),
     (lit ''pptx'', [lit ''ppt'', lit ''pdf'', lit ''odp'']),
     (lit ''odp'', [lit ''ppt'', lit ''pptx'', lit ''pdf''])]"
  by (simp add: list_formats_def CONVERSIONS_def keys_def)

lemma keys_list_formats: "keys list_formats = keys CONVERSIONS"
  by (simp add: list_formats_def keys_def case_prod_unfold comp_def)

lemma keys_outputs_of:
  "keys (outputs_of ie) = (case map_of list_formats ie of None \<Rightarrow> [] | Some ks \<Rightarrow> ks)"
proof -
  have "map_of list_formats ie = map_option keys (map_of CONVERSIONS ie)"
    unfolding list_formats_def by (simp add: map_of_map)
  then show ?thesis
    by (simp add: outputs_of_def keys_def split: option.splits)
qed

lemma map_of_keys: "map_of outs oe = None \<longleftrightarrow> oe \<notin> set (keys outs)"
  by (simp add: keys_def map_of_eq_None_iff)

lemma no_self_pair: "\<forall>ie \<in> set (keys CONVERSIONS). ie \<notin> set (keys (outputs_of ie))"
  unfolding keys_list_formats [symmetric] keys_outputs_of list_formats_eq
  by (simp add: keys_def lit_def)

lemma sorted_inputs:
  "sort (keys CONVERSIONS) =
     [lit ''csv'', lit ''doc'', lit ''docx'', lit ''odp'', lit ''ods'', lit ''odt'',
      lit ''ppt'', lit ''pptx'', lit ''rtf'', lit ''xls'', lit ''xlsx'']"
  unfolding keys_list_formats [symmetric] list_formats_eq
  by (simp add: keys_def lit_def)

lemma in_inputs:
  "ext \<in> set (keys CONVERSIONS) \<longleftrightarrow>
     ext \<in> {lit ''doc'', lit ''docx'', lit ''odt'', lit ''rtf'', lit ''xls'', lit ''xlsx'',
            lit ''ods'', lit ''csv'', lit ''ppt'', lit ''pptx'', lit ''odp''}"
  unfolding keys_list_formats [symmetric] list_formats_eq by (simp add: keys_def)

lemma get_input_ext_Inr: "get_input_ext fname = Inr ie \<Longrightarrow> ie \<in> set (keys CONVERSIONS)"
  by (auto simp: get_input_ext_def Let_def split: if_splits)

section \<open>Properties of paths\<close>

lemma rfind_from_absent: "c \<notin> set s \<Longrightarrow> rfind_from c s i r = r"
  by (induction s arbitrary: i r) auto

lemma split_on_chars: "x \<in> set (split_on c s) \<Longrightarrow> set x \<subseteq> set s"
proof (induction s arbitrary: x)
  case Nil
  then show ?case by simp
next
  case (Cons a s)
  show ?case
  proof (cases "a = c")
    case True
    with Cons show ?thesis by auto
  next
    case False
    show ?thesis
    proof (cases "split_on c s")
      case Nil
      with Cons False show ?thesis by auto
    next
      case (Cons y ys)
      then have y: "set y \<subseteq> set s" and ys: "\<forall>z \<in> set ys. set z \<subseteq> set s"
        using Cons.IH by auto
      from Cons.prems False Cons have "x = a # y \<or> x \<in> set ys" by auto
      with y ys show ?thesis by auto
    qed
  qed
qed

lemma path_name_chars: "set (path_name p) \<subseteq> set p"
proof (cases "parts p")
  case Nil
  then show ?thesis by (simp add: path_name_def)
next
  case (Cons c cs)
  then have "last (c # cs) \<in> set (parts p)"
    by (metis last_in_set list.distinct(1))
  then have "last (c # cs) \<in> set (split_on slash p)"
    by (simp add: parts_def)
  then show ?thesis
    using Cons split_on_chars by (simp add: path_name_def)
qed

lemma path_suffix_no_dot: "dot \<notin> set p \<Longrightarrow> path_suffix p = []"
proof -
  assume "dot \<notin> set p"
  then have "dot \<notin> set (path_name p)" using path_name_chars by blast
  then have "rfind dot (path_name p) = - 1"
    by (simp add: rfind_def rfind_from_absent)
  then show ?thesis by (simp add: path_suffix_def name_suffix_def)
qed

section \<open>Which exceptions leave the handler\<close>

lemma convert_invalid:
  "validate cfg file to = Inl e \<Longrightarrow> convert env cfg ip file to w = (Raise e, w)"
  by (simp add: convert_def)

lemma write_file_uncaught: "write_file f d n data = Inl e \<Longrightarrow> \<exists>c. e = Uncaught c"
  by (auto simp: write_file_def split: option.splits node.splits)

lemma stage_input_uncaught: "stage_input env f d fname data = Inl e \<Longrightarrow> \<exists>c. e = Uncaught c"
  by (auto simp: stage_input_def split: if_splits option.splits dest: write_file_uncaught)

lemma job_body_status:
  "fst (job_body env cfg ip v d w) = Raise (HTTPException st m) \<Longrightarrow> st = 504 \<or> st = 500"
  by (auto simp: job_body_def Let_def
      split: sum.splits process.splits option.splits list.splits node.splits if_splits
      dest: stage_input_uncaught)

lemma with_tmpdir_status:
  "fst (with_tmpdir env cfg ip v w) = Raise (HTTPException st m) \<Longrightarrow> st = 504 \<or> st = 500"
  using job_body_status
  by (auto simp: with_tmpdir_def Let_def split: option.splits if_splits)

lemma with_semaphore_status:
  "fst (with_semaphore env cfg ip v w) = Raise (HTTPException st m) \<Longrightarrow> st = 504 \<or> st = 500"
  using with_tmpdir_status
  by (auto simp: with_semaphore_def Let_def split: acquisition.splits)

lemma convert_valid_status:
  "validate cfg file to = Inr v \<Longrightarrow>
   fst (convert env cfg ip file to w) = Raise (HTTPException st m) \<Longrightarrow>
   st = 429 \<or> st = 504 \<or> st = 500"
  using with_semaphore_status [of env cfg ip v w st m]
  by (auto simp: convert_def Let_def split: if_splits result.splits)

lemma convert_client_error:
  assumes "fst (convert env cfg ip file to w) = Raise (HTTPException st m)"
    and "st = 400 \<or> st = 413"
  shows "validate cfg file to = Inl (HTTPException st m)"
proof (cases "validate cfg file to")
  case (Inl e)
  with assms show ?thesis by (simp add: convert_def)
next
  case (Inr v)
  from convert_valid_status [OF Inr assms(1)] assms(2) show ?thesis by auto
qed

lemma supported_text:
  "join (lit '', '') (sort (keys CONVERSIONS)) =
     lit ''csv, doc, docx, odp, ods, odt, ppt, pptx, rtf, xls, xlsx''"
  unfolding sorted_inputs by (simp add: lit_def)

lemma get_input_ext_no_dot:
  "dot \<notin> set fname \<Longrightarrow> get_input_ext fname =
     Inl (HTTPException 400 (lit ''Unsupported input format: .'' @ lit ''. Supported: ''
       @ lit ''csv, doc, docx, odp, ods, odt, ppt, pptx, rtf, xls, xlsx''))"
proof -
  assume "dot \<notin> set fname"
  then have e: "lstrip dot (lower (path_suffix fname)) = []"
    by (simp add: path_suffix_no_dot lower_def lstrip_def)
  have "[] \<notin> set (keys CONVERSIONS)"
    by (simp add: in_inputs) (simp add: lit_def)
  with e show ?thesis
    by (simp add: get_input_ext_def supported_text)
qed

lemma not_filename_required:
  "lit ''Unsupported input format: .'' @ x \<noteq> lit ''Filename required''"
  "lit ''Cannot convert .'' @ y \<noteq> lit ''Filename required''"
  by (simp_all add: lit_def)

lemma validate_missing_filename:
  "validate cfg file to = Inl (HTTPException 400 (lit ''Filename required''))
     \<longleftrightarrow> filename file = None \<or> filename file = Some []"
  by (auto simp: validate_def check_pair_def get_input_ext_def Let_def not_filename_required
      split: option.splits sum.splits if_splits prod.splits)

section \<open>The convert-to directive\<close>

lemma ext_report_docx: "lstrip dot (lower (path_suffix (lit ''report.docx''))) = lit ''docx''"
  by (simp add: lit_def lower_def lower_cp_def lstrip_def path_suffix_def path_name_def parts_def
      name_suffix_def rfind_def Let_def)

lemma get_input_ext_report_docx: "get_input_ext (lit ''report.docx'') = Inr (lit ''docx'')"
  by (simp add: get_input_ext_def ext_report_docx in_inputs lit_eq_iff)

lemma rule_docx_pdf:
  "map_of (outputs_of (lit ''docx'')) (lit ''pdf'') =
     Some (lit ''writer_pdf_Export'', lit ''application/pdf'')"
  by (simp add: outputs_of_def CONVERSIONS_def lit_eq_iff)

lemma lower_pdf: "lstrip dot (lower (lit ''pdf'')) = lit ''pdf''"
  by (simp add: lit_def lower_def lower_cp_def lstrip_def)

lemma check_pair_report_docx:
  "check_pair \<lparr>filename = Some (lit ''report.docx''), body = data\<rparr> (lit ''pdf'')
     = Inr (lit ''report.docx'', lit ''docx'', lit ''pdf'',
            (lit ''writer_pdf_Export'', lit ''application/pdf''))"
proof -
  have "lit ''report.docx'' \<noteq> []" by (simp add: lit_def)
  then show ?thesis
    by (simp add: check_pair_def get_input_ext_report_docx lower_pdf rule_docx_pdf)
qed

text \<open>
  C4. For the file name \<open>report.docx\<close> and the target \<open>pdf\<close> the checks of the handler
  resolve the rule \<open>("writer_pdf_Export", "application/pdf")\<close>, and the directive built from
  it is \<open>pdf:writer_pdf_Export\<close>. In general the directive is the output extension, a colon
  and the filter name when the filter name is not empty, and the bare output extension when
  it is empty.
\<close>

theorem C4_report_docx_to_pdf:
  "check_pair \<lparr>filename = Some (lit ''report.docx''), body = data\<rparr> (lit ''pdf'')
     = Inr (lit ''report.docx'', lit ''docx'', lit ''pdf'',
            (lit ''writer_pdf_Export'', lit ''application/pdf''))
   \<and> (int (length data) \<le> MAX_FILE_SIZE cfg \<longrightarrow>
        validate cfg \<lparr>filename = Some (lit ''report.docx''), body = data\<rparr> (lit ''pdf'')
          = Inr \<lparr>input_name = lit ''report.docx'', input_ext = lit ''docx'',
                 output_ext = lit ''pdf'', filter_name = lit ''writer_pdf_Export'',
                 mime_type = lit ''application/pdf'', file_content = data,
                 input_size = int (length data)\<rparr>)
   \<and> convert_to_arg (lit ''pdf'') (lit ''writer_pdf_Export'') = lit ''pdf:writer_pdf_Export''
   \<and> engine_argv report_to_pdf d =
        [lit ''libreoffice'', lit ''--headless'', lit ''--convert-to'',
         lit ''pdf:writer_pdf_Export'', lit ''--outdir'', d, joinpath d (lit ''report.docx'')]
   \<and> (\<forall>oe fltr. convert_to_arg oe fltr = (if fltr = [] then oe else oe @ lit '':'' @ fltr))"
proof -
  note a = check_pair_report_docx [of data]
  have v: "int (length data) \<le> MAX_FILE_SIZE cfg \<longrightarrow>
        validate cfg \<lparr>filename = Some (lit ''report.docx''), body = data\<rparr> (lit ''pdf'')
          = Inr \<lparr>input_name = lit ''report.docx'', input_ext = lit ''docx'',
                 output_ext = lit ''pdf'', filter_name = lit ''writer_pdf_Export'',
                 mime_type = lit ''application/pdf'', file_content = data,
                 input_size = int (length data)\<rparr>"
    using a by (simp add: validate_def Let_def)
  have b: "convert_to_arg (lit ''pdf'') (lit ''writer_pdf_Export'') = lit ''pdf:writer_pdf_Export''"
    by (simp add: convert_to_arg_def lit_def)
  have e: "engine_argv report_to_pdf d =
        [lit ''libreoffice'', lit ''--headless'', lit ''--convert-to'',
         lit ''pdf:writer_pdf_Export'', lit ''--outdir'', d, joinpath d (lit ''report.docx'')]"
    using b by (simp add: engine_argv_def report_to_pdf_def)
  have c: "\<forall>oe fltr. convert_to_arg oe fltr = (if fltr = [] then oe else oe @ lit '':'' @ fltr)"
    by (simp add: convert_to_arg_def)
  from a v b e c show ?thesis by blast
qed

theorem C4_directive_witness:
  "convert_to_arg (lit ''csv'') [] = lit ''csv''
   \<and> convert_to_arg (lit ''ods'') (lit ''calc8'') = lit ''ods'' @ lit '':'' @ lit ''calc8''
   \<and> validate default_config \<lparr>filename = Some (lit ''report.docx''), body = [80, 75, 3, 4]\<rparr>
        (lit ''pdf'')
          = Inr \<lparr>input_name = lit ''report.docx'', input_ext = lit ''docx'',
                 output_ext = lit ''pdf'', filter_name = lit ''writer_pdf_Export'',
                 mime_type = lit ''application/pdf'', file_content = [80, 75, 3, 4],
                 input_size = 4\<rparr>"
proof -
  note t = C4_report_docx_to_pdf [of "[80, 75, 3, 4]" default_config scratch]
  from t have g: "\<forall>oe fltr. convert_to_arg oe fltr = (if fltr = [] then oe else oe @ lit '':'' @ fltr)"
    by blast
  have n: "lit ''calc8'' \<noteq> []" by (simp add: lit_def)
  from t have "validate default_config
        \<lparr>filename = Some (lit ''report.docx''), body = [80, 75, 3, 4]\<rparr> (lit ''pdf'')
          = Inr \<lparr>input_name = lit ''report.docx'', input_ext = lit ''docx'',
                 output_ext = lit ''pdf'', filter_name = lit ''writer_pdf_Export'',
                 mime_type = lit ''application/pdf'', file_content = [80, 75, 3, 4],
                 input_size = 4\<rparr>"
    by (simp add: default_config_def)
  with g n show ?thesis by simp
qed

section \<open>File names without an extension\<close>

text \<open>
  C9. A file name that is not empty and has no dot is refused as an unsupported input
  format: its extension is the empty text, which is not a key of the table. The refusal
  ``Filename required'' is raised exactly when the file name is missing or empty.
\<close>

theorem C9_filename_without_dot:
  "(fname \<noteq> [] \<and> dot \<notin> set fname \<longrightarrow>
      convert env cfg ip \<lparr>filename = Some fname, body = data\<rparr> to w =
        (Raise (HTTPException 400
           (lit ''Unsupported input format: .'' @ lit ''. Supported: ''
              @ lit ''csv, doc, docx, odp, ods, odt, ppt, pptx, rtf, xls, xlsx'')), w))
   \<and> (fst (convert env cfg ip file to w) = Raise (HTTPException 400 (lit ''Filename required''))
        \<longleftrightarrow> filename file = None \<or> filename file = Some [])"
proof (intro conjI impI)
  assume a: "fname \<noteq> [] \<and> dot \<notin> set fname"
  then have "validate cfg \<lparr>filename = Some fname, body = data\<rparr> to =
      Inl (HTTPException 400
           (lit ''Unsupported input format: .'' @ lit ''. Supported: ''
              @ lit ''csv, doc, docx, odp, ods, odt, ppt, pptx, rtf, xls, xlsx''))"
    by (simp add: validate_def check_pair_def get_input_ext_no_dot)
  then show "convert env cfg ip \<lparr>filename = Some fname, body = data\<rparr> to w =
        (Raise (HTTPException 400
           (lit ''Unsupported input format: .'' @ lit ''. Supported: ''
              @ lit ''csv, doc, docx, odp, ods, odt, ppt, pptx, rtf, xls, xlsx'')), w)"
    by (rule convert_invalid)
next
  show "fst (convert env cfg ip file to w) = Raise (HTTPException 400 (lit ''Filename required''))
        \<longleftrightarrow> filename file = None \<or> filename file = Some []"
  proof
    assume "fst (convert env cfg ip file to w) = Raise (HTTPException 400 (lit ''Filename required''))"
    then have "validate cfg file to = Inl (HTTPException 400 (lit ''Filename required''))"
      by (rule convert_client_error) simp
    then show "filename file = None \<or> filename file = Some []"
      by (simp add: validate_missing_filename)
  next
    assume "filename file = None \<or> filename file = Some []"
    then have "validate cfg file to = Inl (HTTPException 400 (lit ''Filename required''))"
      by (simp add: validate_missing_filename)
    then show "fst (convert env cfg ip file to w) = Raise (HTTPException 400 (lit ''Filename required''))"
      by (simp add: convert_invalid)
  qed
qed

theorem C9_readme_witness:
  "convert (env_with writes_nothing) default_config (lit ''10.0.0.1'')
       \<lparr>filename = Some (lit ''README''), body = []\<rparr> (lit ''pdf'') idle_world =
     (Raise (HTTPException 400
        (lit ''Unsupported input format: .. Supported: csv, doc, docx, odp, ods, odt, ppt, pptx, rtf, xls, xlsx'')),
      idle_world)
   \<and> fst (convert (env_with writes_nothing) default_config (lit ''10.0.0.1'')
       \<lparr>filename = Some [], body = []\<rparr> (lit ''pdf'') idle_world) =
     Raise (HTTPException 400 (lit ''Filename required''))"
proof -
  have n: "lit ''README'' \<noteq> [] \<and> dot \<notin> set (lit ''README'')"
    by (simp add: lit_def)
  have m: "lit ''Unsupported input format: .'' @ lit ''. Supported: ''
              @ lit ''csv, doc, docx, odp, ods, odt, ppt, pptx, rtf, xls, xlsx''
        = lit ''Unsupported input format: .. Supported: csv, doc, docx, odp, ods, odt, ppt, pptx, rtf, xls, xlsx''"
    by (simp add: lit_def)
  from n m
    C9_filename_without_dot [of "lit ''README''" "env_with writes_nothing" default_config
      "lit ''10.0.0.1''" "[]" "lit ''pdf''" idle_world "\<lparr>filename = Some [], body = []\<rparr>"]
  show ?thesis by simp
qed

section \<open>The size limit\<close>

lemma validate_too_large:
  "validate cfg file to = Inl (HTTPException 413 m) \<longleftrightarrow>
     (\<exists>p. check_pair file to = Inr p) \<and> MAX_FILE_SIZE cfg < int (length (body file))
     \<and> m = lit ''File too large: '' @ str_of_int (int (length (body file)))
           @ lit '' bytes. Max: '' @ str_of_int (MAX_FILE_SIZE cfg) @ lit '' bytes''"
  by (auto simp: validate_def check_pair_def get_input_ext_def Let_def
      split: option.splits sum.splits if_splits prod.splits)

text \<open>
  C5. The handler raises the 413 ``File too large'' exactly when the file name and the pair
  have passed their checks and the number of bytes read is greater than \<open>MAX_FILE_SIZE\<close>;
  the size is compared only then. A payload of exactly \<open>MAX_FILE_SIZE\<close> bytes passes
  validation.
\<close>

theorem C5_payload_too_large:
  "(fst (convert env cfg ip file to w) = Raise (HTTPException 413 m) \<longleftrightarrow>
      (\<exists>p. check_pair file to = Inr p) \<and> MAX_FILE_SIZE cfg < int (length (body file))
      \<and> m = lit ''File too large: '' @ str_of_int (int (length (body file)))
            @ lit '' bytes. Max: '' @ str_of_int (MAX_FILE_SIZE cfg) @ lit '' bytes'')
   \<and> (check_pair file to = Inr (fname, ie, oe, r)
        \<and> int (length (body file)) = MAX_FILE_SIZE cfg \<longrightarrow>
      validate cfg file to =
        Inr \<lparr>input_name = fname, input_ext = ie, output_ext = oe, filter_name = fst r,
             mime_type = snd r, file_content = body file,
             input_size = MAX_FILE_SIZE cfg\<rparr>)"
proof (intro conjI impI)
  show "fst (convert env cfg ip file to w) = Raise (HTTPException 413 m) \<longleftrightarrow>
      (\<exists>p. check_pair file to = Inr p) \<and> MAX_FILE_SIZE cfg < int (length (body file))
      \<and> m = lit ''File too large: '' @ str_of_int (int (length (body file)))
            @ lit '' bytes. Max: '' @ str_of_int (MAX_FILE_SIZE cfg) @ lit '' bytes''"
    (is "?L \<longleftrightarrow> ?R")
  proof
    assume ?L
    then have "validate cfg file to = Inl (HTTPException 413 m)"
      by (rule convert_client_error) simp
    then show ?R by (simp only: validate_too_large)
  next
    assume ?R
    then have "validate cfg file to = Inl (HTTPException 413 m)"
      by (simp only: validate_too_large)
    then show ?L by (simp add: convert_invalid)
  qed
next
  assume "check_pair file to = Inr (fname, ie, oe, r)
        \<and> int (length (body file)) = MAX_FILE_SIZE cfg"
  then show "validate cfg file to =
        Inr \<lparr>input_name = fname, input_ext = ie, output_ext = oe, filter_name = fst r,
             mime_type = snd r, file_content = body file,
             input_size = MAX_FILE_SIZE cfg\<rparr>"
    by (simp add: validate_def Let_def)
qed

theorem C5_limit_witness:
  "fst (convert (env_with writes_nothing) small_config (lit ''10.0.0.1'')
         \<lparr>filename = Some (lit ''report.docx''), body = [80, 75, 3, 4, 20]\<rparr> (lit ''pdf'')
         idle_world) =
     Raise (HTTPException 413 (lit ''File too large: 5 bytes. Max: 4 bytes''))
   \<and> validate small_config \<lparr>filename = Some (lit ''report.docx''), body = [80, 75, 3, 4]\<rparr>
        (lit ''pdf'') =
     Inr \<lparr>input_name = lit ''report.docx'', input_ext = lit ''docx'', output_ext = lit ''pdf'',
          filter_name = lit ''writer_pdf_Export'', mime_type = lit ''application/pdf'',
          file_content = [80, 75, 3, 4], input_size = 4\<rparr>"
proof -
  have m: "lit ''File too large: '' @ str_of_int 5 @ lit '' bytes. Max: '' @ str_of_int 4
             @ lit '' bytes'' = lit ''File too large: 5 bytes. Max: 4 bytes''"
    by (simp add: str_of_int_def digits.simps lit_def)
  have a: "fst (convert (env_with writes_nothing) small_config (lit ''10.0.0.1'')
         \<lparr>filename = Some (lit ''report.docx''), body = [80, 75, 3, 4, 20]\<rparr> (lit ''pdf'')
         idle_world) =
     Raise (HTTPException 413 (lit ''File too large: 5 bytes. Max: 4 bytes''))"
    using m check_pair_report_docx [of "[80, 75, 3, 4, 20]"]
      C5_payload_too_large [of "env_with writes_nothing" small_config "lit ''10.0.0.1''"
        "\<lparr>filename = Some (lit ''report.docx''), body = [80, 75, 3, 4, 20]\<rparr>" "lit ''pdf''"
        idle_world "lit ''File too large: 5 bytes. Max: 4 bytes''"]
    by (simp add: small_config_def)
  have b: "validate small_config \<lparr>filename = Some (lit ''report.docx''), body = [80, 75, 3, 4]\<rparr>
        (lit ''pdf'') =
     Inr \<lparr>input_name = lit ''report.docx'', input_ext = lit ''docx'', output_ext = lit ''pdf'',
          filter_name = lit ''writer_pdf_Export'', mime_type = lit ''application/pdf'',
          file_content = [80, 75, 3, 4], input_size = 4\<rparr>"
    using check_pair_report_docx [of "[80, 75, 3, 4]"]
      C5_payload_too_large [of "env_with writes_nothing" small_config "lit ''10.0.0.1''"
        "\<lparr>filename = Some (lit ''report.docx''), body = [80, 75, 3, 4]\<rparr>" "lit ''pdf''"
        idle_world "[]" "lit ''report.docx''" "lit ''docx''" "lit ''pdf''"
        "(lit ''writer_pdf_Export'', lit ''application/pdf'')"]
    by (simp add: small_config_def)
  from a b show ?thesis by blast
qed

section \<open>No conversion of a format to itself\<close>

lemmas path_ev = lit_def lower_def lower_cp_def lstrip_def path_suffix_def path_name_def
  parts_def name_suffix_def rfind_def Let_def

lemma check_pair_same:
  assumes "fname \<noteq> []" and "get_input_ext fname = Inr ie" and "lstrip dot (lower to) = ie"
  shows "check_pair \<lparr>filename = Some fname, body = data\<rparr> to =
     Inl (HTTPException 400
       (lit ''Cannot convert .'' @ ie @ lit '' to .'' @ ie @ lit ''. Available: ''
          @ join (lit '', '') (sort (keys (outputs_of ie)))))"
proof -
  from assms(2) have "ie \<in> set (keys CONVERSIONS)" by (rule get_input_ext_Inr)
  with no_self_pair have "map_of (outputs_of ie) ie = None"
    by (simp add: map_of_keys)
  with assms show ?thesis by (simp add: check_pair_def)
qed

text \<open>
  C7. No input extension of the table has itself among its outputs. So a request whose target,
  lower-cased and without leading dots, is the input extension of its file name is refused as
  an unsupported pair, whatever the letter case of the target: \<open>sheet.xlsx\<close> to \<open>XLSX\<close>
  is refused.
\<close>

theorem C7_no_self_conversion:
  "(\<forall>ie \<in> set (keys CONVERSIONS). map_of (outputs_of ie) ie = None)
   \<and> (fname \<noteq> [] \<and> get_input_ext fname = Inr ie \<and> lstrip dot (lower to) = ie \<longrightarrow>
        convert env cfg ip \<lparr>filename = Some fname, body = data\<rparr> to w =
          (Raise (HTTPException 400
             (lit ''Cannot convert .'' @ ie @ lit '' to .'' @ ie @ lit ''. Available: ''
                @ join (lit '', '') (sort (keys (outputs_of ie))))), w))"
proof (intro conjI impI)
  show "\<forall>ie \<in> set (keys CONVERSIONS). map_of (outputs_of ie) ie = None"
    using no_self_pair by (simp add: map_of_keys)
next
  assume "fname \<noteq> [] \<and> get_input_ext fname = Inr ie \<and> lstrip dot (lower to) = ie"
  then have "validate cfg \<lparr>filename = Some fname, body = data\<rparr> to =
     Inl (HTTPException 400
       (lit ''Cannot convert .'' @ ie @ lit '' to .'' @ ie @ lit ''. Available: ''
          @ join (lit '', '') (sort (keys (outputs_of ie)))))"
    by (simp add: validate_def check_pair_same)
  then show "convert env cfg ip \<lparr>filename = Some fname, body = data\<rparr> to w =
          (Raise (HTTPException 400
             (lit ''Cannot convert .'' @ ie @ lit '' to .'' @ ie @ lit ''. Available: ''
                @ join (lit '', '') (sort (keys (outputs_of ie))))), w)"
    by (rule convert_invalid)
qed

lemma get_input_ext_sheet_xlsx: "get_input_ext (lit ''sheet.xlsx'') = Inr (lit ''xlsx'')"
proof -
  have "lstrip dot (lower (path_suffix (lit ''sheet.xlsx''))) = lit ''xlsx''"
    by (simp add: path_ev)
  then show ?thesis by (simp add: get_input_ext_def in_inputs lit_eq_iff)
qed

lemma lower_XLSX: "lstrip dot (lower (lit ''XLSX'')) = lit ''xlsx''"
  by (simp add: lit_def lower_def lower_cp_def lstrip_def)

lemma outputs_xlsx:
  "sort (keys (outputs_of (lit ''xlsx''))) = [lit ''csv'', lit ''ods'', lit ''pdf'', lit ''xls'']"
proof -
  have "keys (outputs_of (lit ''xlsx'')) = [lit ''xls'', lit ''pdf'', lit ''ods'', lit ''csv'']"
    unfolding keys_outputs_of list_formats_eq by (simp add: lit_eq_iff)
  then show ?thesis by (simp add: lit_def)
qed

theorem C7_sheet_xlsx_witness:
  "convert (env_with writes_nothing) default_config (lit ''10.0.0.1'')
       \<lparr>filename = Some (lit ''sheet.xlsx''), body = []\<rparr> (lit ''XLSX'') idle_world =
     (Raise (HTTPException 400
        (lit ''Cannot convert .xlsx to .xlsx. Available: csv, ods, pdf, xls'')), idle_world)"
proof -
  have n: "lit ''sheet.xlsx'' \<noteq> []" by (simp add: lit_def)
  have m: "lit ''Cannot convert .'' @ lit ''xlsx'' @ lit '' to .'' @ lit ''xlsx''
             @ lit ''. Available: ''
             @ join (lit '', '') [lit ''csv'', lit ''ods'', lit ''pdf'', lit ''xls'']
           = lit ''Cannot convert .xlsx to .xlsx. Available: csv, ods, pdf, xls''"
    by (simp add: lit_def)
  from n m get_input_ext_sheet_xlsx lower_XLSX outputs_xlsx
    C7_no_self_conversion [of "lit ''sheet.xlsx''" "lit ''xlsx''" "lit ''XLSX''"
      "env_with writes_nothing" default_config "lit ''10.0.0.1''" "[]" idle_world]
  show ?thesis by simp
qed

section \<open>What the refusals list\<close>

text \<open>
  C8. When the extension of the file name is not a key of the table, the refusal lists the
  keys of the table in sorted order, each once: \<open>csv, doc, docx, odp, ods, odt, ppt, pptx,
  rtf, xls, xlsx\<close>. When the input extension is supported and the target is not among its
  outputs, the refusal lists the output extensions of that input's entry in sorted order,
  each once.
\<close>

theorem C8_error_messages_enumerate:
  "(fname \<noteq> [] \<and> lstrip dot (lower (path_suffix fname)) \<notin> set (keys CONVERSIONS) \<longrightarrow>
      convert env cfg ip \<lparr>filename = Some fname, body = data\<rparr> to w =
        (Raise (HTTPException 400
           (lit ''Unsupported input format: .'' @ lstrip dot (lower (path_suffix fname))
              @ lit ''. Supported: '' @ join (lit '', '') (sort (keys CONVERSIONS)))), w))
   \<and> sorted (sort (keys CONVERSIONS))
   \<and> set (sort (keys CONVERSIONS)) = set (keys CONVERSIONS)
   \<and> length (sort (keys CONVERSIONS)) = length (keys CONVERSIONS)
   \<and> join (lit '', '') (sort (keys CONVERSIONS)) =
        lit ''csv, doc, docx, odp, ods, odt, ppt, pptx, rtf, xls, xlsx''
   \<and> (fname \<noteq> [] \<and> get_input_ext fname = Inr ie
        \<and> lstrip dot (lower to) \<notin> set (keys (outputs_of ie)) \<longrightarrow>
      convert env cfg ip \<lparr>filename = Some fname, body = data\<rparr> to w =
        (Raise (HTTPException 400
           (lit ''Cannot convert .'' @ ie @ lit '' to .'' @ lstrip dot (lower to)
              @ lit ''. Available: '' @ join (lit '', '') (sort (keys (outputs_of ie))))), w))
   \<and> sorted (sort (keys (outputs_of ie)))
   \<and> set (sort (keys (outputs_of ie))) = set (keys (outputs_of ie))
   \<and> length (sort (keys (outputs_of ie))) = length (keys (outputs_of ie))"
proof (intro conjI impI)
  assume "fname \<noteq> [] \<and> lstrip dot (lower (path_suffix fname)) \<notin> set (keys CONVERSIONS)"
  then have "validate cfg \<lparr>filename = Some fname, body = data\<rparr> to =
      Inl (HTTPException 400
           (lit ''Unsupported input format: .'' @ lstrip dot (lower (path_suffix fname))
              @ lit ''. Supported: '' @ join (lit '', '') (sort (keys CONVERSIONS))))"
    by (simp add: validate_def check_pair_def get_input_ext_def Let_def)
  then show "convert env cfg ip \<lparr>filename = Some fname, body = data\<rparr> to w =
        (Raise (HTTPException 400
           (lit ''Unsupported input format: .'' @ lstrip dot (lower (path_suffix fname))
              @ lit ''. Supported: '' @ join (lit '', '') (sort (keys CONVERSIONS)))), w)"
    by (rule convert_invalid)
next
  assume "fname \<noteq> [] \<and> get_input_ext fname = Inr ie
        \<and> lstrip dot (lower to) \<notin> set (keys (outputs_of ie))"
  then have "validate cfg \<lparr>filename = Some fname, body = data\<rparr> to =
      Inl (HTTPException 400
           (lit ''Cannot convert .'' @ ie @ lit '' to .'' @ lstrip dot (lower to)
              @ lit ''. Available: '' @ join (lit '', '') (sort (keys (outputs_of ie)))))"
    by (simp add: validate_def check_pair_def Let_def map_of_keys [symmetric])
  then show "convert env cfg ip \<lparr>filename = Some fname, body = data\<rparr> to w =
        (Raise (HTTPException 400
           (lit ''Cannot convert .'' @ ie @ lit '' to .'' @ lstrip dot (lower to)
              @ lit ''. Available: '' @ join (lit '', '') (sort (keys (outputs_of ie))))), w)"
    by (rule convert_invalid)
qed (simp_all add: supported_text)

lemma get_input_ext_data_csv: "get_input_ext (lit ''data.csv'') = Inr (lit ''csv'')"
proof -
  have "lstrip dot (lower (path_suffix (lit ''data.csv''))) = lit ''csv''"
    by (simp add: path_ev)
  then show ?thesis by (simp add: get_input_ext_def in_inputs lit_eq_iff)
qed

lemma lower_pptx: "lstrip dot (lower (lit ''pptx'')) = lit ''pptx''"
  by (simp add: lit_def lower_def lower_cp_def lstrip_def)

lemma keys_outputs_csv:
  "keys (outputs_of (lit ''csv'')) = [lit ''xls'', lit ''xlsx'', lit ''ods'']"
  unfolding keys_outputs_of list_formats_eq by (simp add: lit_eq_iff)

lemma ext_notes_md: "lstrip dot (lower (path_suffix (lit ''notes.md''))) = lit ''md''"
  by (simp add: path_ev)

theorem C8_messages_witness:
  "convert (env_with writes_nothing) default_config (lit ''10.0.0.1'')
       \<lparr>filename = Some (lit ''notes.md''), body = []\<rparr> (lit ''pdf'') idle_world =
     (Raise (HTTPException 400
        (lit ''Unsupported input format: .md. Supported: csv, doc, docx, odp, ods, odt, ppt, pptx, rtf, xls, xlsx'')),
      idle_world)
   \<and> convert (env_with writes_nothing) default_config (lit ''10.0.0.1'')
       \<lparr>filename = Some (lit ''data.csv''), body = []\<rparr> (lit ''pptx'') idle_world =
     (Raise (HTTPException 400
        (lit ''Cannot convert .csv to .pptx. Available: ods, xls, xlsx'')), idle_world)"
proof -
  have n: "lit ''notes.md'' \<noteq> []" "lit ''data.csv'' \<noteq> []" by (simp_all add: lit_def)
  have u: "lit ''md'' \<notin> set (keys CONVERSIONS)"
    by (simp add: in_inputs lit_eq_iff)
  have p: "lit ''pptx'' \<notin> set (keys (outputs_of (lit ''csv'')))"
    by (simp add: keys_outputs_csv lit_eq_iff)
  have m1: "lit ''Unsupported input format: .'' @ lit ''md'' @ lit ''. Supported: ''
              @ lit ''csv, doc, docx, odp, ods, odt, ppt, pptx, rtf, xls, xlsx''
          = lit ''Unsupported input format: .md. Supported: csv, doc, docx, odp, ods, odt, ppt, pptx, rtf, xls, xlsx''"
    by (simp add: lit_def)
  have m2: "lit ''Cannot convert .'' @ lit ''csv'' @ lit '' to .'' @ lit ''pptx''
              @ lit ''. Available: ''
              @ join (lit '', '') (sort [lit ''xls'', lit ''xlsx'', lit ''ods''])
          = lit ''Cannot convert .csv to .pptx. Available: ods, xls, xlsx''"
    by (simp add: lit_def)
  have a: "convert (env_with writes_nothing) default_config (lit ''10.0.0.1'')
       \<lparr>filename = Some (lit ''notes.md''), body = []\<rparr> (lit ''pdf'') idle_world =
     (Raise (HTTPException 400
        (lit ''Unsupported input format: .md. Supported: csv, doc, docx, odp, ods, odt, ppt, pptx, rtf, xls, xlsx'')),
      idle_world)"
    using n u m1 ext_notes_md supported_text
      C8_error_messages_enumerate [of "lit ''notes.md''" "env_with writes_nothing"
        default_config "lit ''10.0.0.1''" "[]" "lit ''pdf''" idle_world "lit ''csv''"]
    by simp
  have b: "convert (env_with writes_nothing) default_config (lit ''10.0.0.1'')
       \<lparr>filename = Some (lit ''data.csv''), body = []\<rparr> (lit ''pptx'') idle_world =
     (Raise (HTTPException 400
        (lit ''Cannot convert .csv to .pptx. Available: ods, xls, xlsx'')), idle_world)"
    using n p m2 get_input_ext_data_csv lower_pptx keys_outputs_csv
      C8_error_messages_enumerate [of "lit ''data.csv''" "env_with writes_nothing"
        default_config "lit ''10.0.0.1''" "[]" "lit ''pptx''" idle_world "lit ''csv''"]
    by simp
  from a b show ?thesis by blast
qed

section \<open>The permit pool\<close>

lemma lifespan_inv: "lifespan cfg = Inr s \<Longrightarrow> pool_inv cfg s"
  by (auto simp: lifespan_def Semaphore_def pool_inv_def split: if_splits)

lemma step_inv: "pool_inv cfg s \<Longrightarrow> pool_inv cfg (snd (step a s))"
  by (cases a)
     (auto simp: pool_inv_def can_proceed_def locked_def acquire_def release_def)

lemma run_inv: "pool_inv cfg s \<Longrightarrow> pool_inv cfg (run as s)"
  by (induction as arbitrary: s) (auto intro: step_inv)

lemma full_rejects:
  "pool_inv cfg s \<Longrightarrow> held cfg s = MAX_CONCURRENT cfg \<Longrightarrow>
   step Arrive s =
     (Rejected (HTTPException 429 (lit ''Too many concurrent requests. Please retry later.'')), s)"
  by (simp add: pool_inv_def held_def can_proceed_def locked_def)

lemma free_admits:
  "pool_inv cfg s \<Longrightarrow> held cfg s < MAX_CONCURRENT cfg \<Longrightarrow>
   step Arrive s =
     (Admitted, \<lparr>pool = (pool s)\<lparr>sem_value := sem_value (pool s) - 1\<rparr>,
                 in_flight = in_flight s + 1\<rparr>)"
  by (simp add: pool_inv_def held_def can_proceed_def locked_def acquire_def)

lemma never_blocked: "pool_inv cfg s \<Longrightarrow> fst (step Arrive s) \<noteq> Blocked"
  by (auto simp: pool_inv_def can_proceed_def locked_def acquire_def)

lemma release_admits:
  "pool_inv cfg s \<Longrightarrow> fst (step Finish s) = Released \<Longrightarrow>
   fst (step Arrive (snd (step Finish s))) = Admitted"
  by (auto simp: pool_inv_def can_proceed_def locked_def acquire_def release_def
      split: if_splits)

lemma full_rejects_convert:
  "validate cfg file to = Inr v \<Longrightarrow> sem_waiters (conversion_semaphore w) = 0 \<Longrightarrow>
   sem_value (conversion_semaphore w) = 0 \<Longrightarrow>
   convert env cfg ip file to w =
     (Raise (HTTPException 429 (lit ''Too many concurrent requests. Please retry later.'')), w)"
  by (simp add: convert_def can_proceed_def locked_def)

text \<open>
  C2. From the start of the server on, whatever requests arrive and finish: the permits that
  are out are never more than \<open>MAX_CONCURRENT\<close> (and as many as there are requests inside the
  block); when all of them are out, the next request is refused at once with the 429 and the
  pool is left as it was, nobody being queued, and \<open>convert\<close> refuses any valid request in
  that state; a request is never queued; and after a request has left the block and given
  its permit back, the next request is admitted.
\<close>

theorem C2_admission_pool:
  assumes "lifespan cfg = Inr s0"
  shows "0 \<le> held cfg (run as s0) \<and> held cfg (run as s0) \<le> MAX_CONCURRENT cfg
    \<and> held cfg (run as s0) = int (in_flight (run as s0))
    \<and> (held cfg (run as s0) = MAX_CONCURRENT cfg \<longrightarrow>
         step Arrive (run as s0) =
           (Rejected (HTTPException 429
              (lit ''Too many concurrent requests. Please retry later.'')), run as s0)
         \<and> (\<forall>env ip file to w v.
               validate cfg file to = Inr v \<and> conversion_semaphore w = pool (run as s0) \<longrightarrow>
               convert env cfg ip file to w =
                 (Raise (HTTPException 429
                    (lit ''Too many concurrent requests. Please retry later.'')), w)))
    \<and> (held cfg (run as s0) < MAX_CONCURRENT cfg \<longrightarrow> fst (step Arrive (run as s0)) = Admitted)
    \<and> fst (step Arrive (run as s0)) \<noteq> Blocked
    \<and> (fst (step Finish (run as s0)) = Released \<longrightarrow>
         fst (step Arrive (snd (step Finish (run as s0)))) = Admitted)"
proof -
  let ?s = "run as s0"
  have i: "pool_inv cfg ?s"
    using assms by (intro run_inv lifespan_inv)
  then have h: "0 \<le> held cfg ?s" "held cfg ?s \<le> MAX_CONCURRENT cfg"
    "held cfg ?s = int (in_flight ?s)"
    by (auto simp: pool_inv_def held_def)
  have r: "held cfg ?s = MAX_CONCURRENT cfg \<longrightarrow>
         step Arrive ?s =
           (Rejected (HTTPException 429
              (lit ''Too many concurrent requests. Please retry later.'')), ?s)"
    using full_rejects [OF i] by blast
  have c: "held cfg ?s = MAX_CONCURRENT cfg \<longrightarrow> (\<forall>env ip file to w v.
               validate cfg file to = Inr v \<and> conversion_semaphore w = pool ?s \<longrightarrow>
               convert env cfg ip file to w =
                 (Raise (HTTPException 429
                    (lit ''Too many concurrent requests. Please retry later.'')), w))"
  proof (intro impI allI)
    fix env :: environment and ip :: str and upl :: upload_file and to :: str
      and w :: world and v :: resolved
    assume f: "held cfg ?s = MAX_CONCURRENT cfg"
      and "validate cfg upl to = Inr v \<and> conversion_semaphore w = pool ?s"
    moreover from i f have "sem_waiters (pool ?s) = 0" "sem_value (pool ?s) = 0"
      by (auto simp: pool_inv_def held_def)
    ultimately show "convert env cfg ip upl to w =
                 (Raise (HTTPException 429
                    (lit ''Too many concurrent requests. Please retry later.'')), w)"
      by (simp add: full_rejects_convert)
  qed
  have a: "held cfg ?s < MAX_CONCURRENT cfg \<longrightarrow> fst (step Arrive ?s) = Admitted"
    using free_admits [OF i] by simp
  have b: "fst (step Arrive ?s) \<noteq> Blocked"
    using i by (rule never_blocked)
  have f: "fst (step Finish ?s) = Released \<longrightarrow>
         fst (step Arrive (snd (step Finish ?s))) = Admitted"
    using release_admits [OF i] by blast
  from h r c a b f show ?thesis by blast
qed

lemma lifespan_default:
  "lifespan default_config = Inr \<lparr>pool = \<lparr>sem_value = 10, sem_waiters = 0\<rparr>, in_flight = 0\<rparr>"
  by (simp add: lifespan_def Semaphore_def default_config_def)

lemma run_ten:
  "run ten_arrivals \<lparr>pool = \<lparr>sem_value = 10, sem_waiters = 0\<rparr>, in_flight = 0\<rparr> =
     \<lparr>pool = \<lparr>sem_value = 0, sem_waiters = 0\<rparr>, in_flight = 10\<rparr>"
  by (simp add: ten_arrivals_def can_proceed_def locked_def acquire_def)

theorem C2_eleven_requests_witness:
  "lifespan default_config = Inr \<lparr>pool = \<lparr>sem_value = 10, sem_waiters = 0\<rparr>, in_flight = 0\<rparr>
   \<and> in_flight (run ten_arrivals \<lparr>pool = \<lparr>sem_value = 10, sem_waiters = 0\<rparr>, in_flight = 0\<rparr>) = 10
   \<and> step Arrive (run ten_arrivals \<lparr>pool = \<lparr>sem_value = 10, sem_waiters = 0\<rparr>, in_flight = 0\<rparr>) =
       (Rejected (HTTPException 429 (lit ''Too many concurrent requests. Please retry later.'')),
        run ten_arrivals \<lparr>pool = \<lparr>sem_value = 10, sem_waiters = 0\<rparr>, in_flight = 0\<rparr>)
   \<and> fst (step Arrive (snd (step Finish
        (run ten_arrivals \<lparr>pool = \<lparr>sem_value = 10, sem_waiters = 0\<rparr>, in_flight = 0\<rparr>)))) = Admitted"
proof -
  have h: "held default_config \<lparr>pool = \<lparr>sem_value = 0, sem_waiters = 0\<rparr>, in_flight = 10\<rparr> = 10"
    "MAX_CONCURRENT default_config = 10"
    by (simp_all add: held_def default_config_def)
  from h lifespan_default run_ten
    C2_admission_pool [OF lifespan_default, of ten_arrivals]
  show ?thesis by simp
qed

section \<open>The example runs\<close>

lemma validate_report: "validate default_config report_docx (lit ''pdf'') = Inr report_to_pdf"
  using check_pair_report_docx [of "[80, 75, 3, 4]"]
  by (simp add: validate_def report_docx_def default_config_def report_to_pdf_def)

lemma staged_report:
  "stage_input (env_with e) (Map.empty(scratch \<mapsto> [])) scratch (lit ''report.docx'') data =
     Inr (Map.empty(scratch \<mapsto> [(lit ''report.docx'', File data)]))"
  by (simp add: stage_input_def write_file_def path_name_def parts_def is_absolute_def lit_def)

lemma glob_report_pdf:
  "glob_match (lit ''pdf'') (lit ''report.pdf'')" "\<not> glob_match (lit ''pdf'') (lit ''report.docx'')"
  by (simp_all add: glob_match_def endswith_def lit_def)

lemma env_with_simps:
  "mkdtemp (env_with e) f = Some scratch" "engine (env_with e) = e"
  "duration_ms (env_with e) = 1200" "resolve_dir (env_with e) f d p = None"
  by (simp_all add: env_with_def)

lemma job_report_success:
  "job_body (env_with (writes_pdf out)) default_config ip report_to_pdf scratch
      \<lparr>conversion_semaphore = s, disk = Map.empty(scratch \<mapsto> []), logged = l\<rparr> =
   (Return out, \<lparr>conversion_semaphore = s, disk = Map.empty(scratch \<mapsto>
       [(lit ''report.docx'', File [80, 75, 3, 4]), (lit ''report.pdf'', File out)]),
       logged = l\<rparr>)"
  apply (simp add: job_body_def report_to_pdf_def staged_report Let_def)
  apply (simp add: env_with_def writes_pdf_def glob_ext_def glob_report_pdf lit_eq_iff)
  done

lemma job_report_nothing:
  "job_body (env_with writes_nothing) default_config ip report_to_pdf scratch
      \<lparr>conversion_semaphore = s, disk = Map.empty(scratch \<mapsto> []), logged = l\<rparr> =
   (Raise (HTTPException 500 (lit ''Conversion produced no output'')),
    \<lparr>conversion_semaphore = s,
     disk = Map.empty(scratch \<mapsto> [(lit ''report.docx'', File [80, 75, 3, 4])]), logged = l\<rparr>)"
  apply (simp add: job_body_def report_to_pdf_def staged_report Let_def)
  apply (simp add: env_with_def writes_nothing_def glob_ext_def glob_report_pdf)
  done

lemma job_report_timeout:
  "job_body (env_with times_out) default_config ip report_to_pdf scratch
      \<lparr>conversion_semaphore = s, disk = Map.empty(scratch \<mapsto> []), logged = l\<rparr> =
   (Raise (HTTPException 504 (lit ''Conversion timed out'')),
    \<lparr>conversion_semaphore = s,
     disk = Map.empty(scratch \<mapsto> [(lit ''report.docx'', File [80, 75, 3, 4])]),
     logged = l @ [log_record (lit ''conversion_timeout'')
        [(''input_format'', S (lit ''docx'')), (''output_format'', S (lit ''pdf'')),
         (''input_size_bytes'', I 4), (''client_ip'', S ip)]]\<rparr>)"
  apply (simp add: job_body_def report_to_pdf_def staged_report Let_def)
  apply (simp add: env_with_def times_out_def log_event_def)
  done

lemma decode_ff: "decode [255] = None"
  by (simp add: decode_def)

lemma job_report_undecodable:
  "job_body (env_with (fails_with 1 [255])) default_config ip report_to_pdf scratch
      \<lparr>conversion_semaphore = s, disk = Map.empty(scratch \<mapsto> []), logged = l\<rparr> =
   (Raise (Uncaught ''UnicodeDecodeError''),
    \<lparr>conversion_semaphore = s,
     disk = Map.empty(scratch \<mapsto> [(lit ''report.docx'', File [80, 75, 3, 4])]), logged = l\<rparr>)"
  apply (simp add: job_body_def report_to_pdf_def staged_report Let_def)
  apply (simp add: env_with_def fails_with_def decode_ff)
  done

lemmas run_ev = convert_def validate_report can_proceed_def locked_def idle_world_def
  with_semaphore_def acquire_def release_def with_tmpdir_def env_with_simps Let_def rmtree_def
  log_event_def

lemma convert_report_success:
  "convert (env_with (writes_pdf out)) default_config ip report_docx (lit ''pdf'') idle_world =
     (Return \<lparr>content = out, media_type = lit ''application/pdf'',
              content_disposition = lit ''attachment; filename='' @ [34] @ lit ''report.pdf'' @ [34]\<rparr>,
      \<lparr>conversion_semaphore = \<lparr>sem_value = 10, sem_waiters = 0\<rparr>, disk = Map.empty,
       logged = [log_record (lit ''conversion_complete'')
         [(''input_format'', S (lit ''docx'')), (''output_format'', S (lit ''pdf'')),
          (''input_size_bytes'', I 4), (''output_size_bytes'', I (int (length out))),
          (''duration_ms'', I 1200), (''client_ip'', S ip)]]\<rparr>)"
  apply (simp add: run_ev job_report_success)
  apply (simp add: report_to_pdf_def path_stem_def path_name_def parts_def name_stem_def
      rfind_def lit_def Let_def)
  done

lemma convert_report_nothing:
  "convert (env_with writes_nothing) default_config ip report_docx (lit ''pdf'') idle_world =
     (Raise (HTTPException 500 (lit ''Conversion produced no output'')), idle_world)"
  by (simp add: run_ev job_report_nothing)

lemma convert_report_timeout:
  "convert (env_with times_out) default_config ip report_docx (lit ''pdf'') idle_world =
     (Raise (HTTPException 504 (lit ''Conversion timed out'')),
      \<lparr>conversion_semaphore = \<lparr>sem_value = 10, sem_waiters = 0\<rparr>, disk = Map.empty,
       logged = [log_record (lit ''conversion_timeout'')
        [(''input_format'', S (lit ''docx'')), (''output_format'', S (lit ''pdf'')),
         (''input_size_bytes'', I 4), (''client_ip'', S ip)]]\<rparr>)"
  by (simp add: run_ev job_report_timeout)

lemma convert_report_undecodable:
  "convert (env_with (fails_with 1 [255])) default_config ip report_docx (lit ''pdf'') idle_world =
     (Raise (Uncaught ''UnicodeDecodeError''), idle_world)"
  by (simp add: run_ev job_report_undecodable)

lemma convert_report_busy:
  "convert env default_config ip report_docx (lit ''pdf'') busy_world =
     (Raise (HTTPException 429 (lit ''Too many concurrent requests. Please retry later.'')),
      busy_world)"
  by (simp add: convert_def validate_report can_proceed_def locked_def busy_world_def)

section \<open>Outcome records\<close>

lemma no_output_not_failed:
  "lit ''Conversion produced no output'' \<noteq> lit ''Conversion failed: '' @ text"
  by (simp add: lit_def)

lemma length_lit: "length (lit s) = length s"
  by (simp add: lit_def)

lemma job_body_log:
  "logged (snd (job_body env cfg ip v d w)) = logged w @
     (case fst (job_body env cfg ip v d w) of
        Raise (HTTPException st m) \<Rightarrow>
          if st = 504 then
            [log_record (lit ''conversion_timeout'')
               [(''input_format'', S (input_ext v)), (''output_format'', S (output_ext v)),
                (''input_size_bytes'', I (input_size v)), (''client_ip'', S ip)]]
          else if m = lit ''Conversion produced no output'' then []
          else
            [log_record (lit ''conversion_error'')
               [(''input_format'', S (input_ext v)), (''output_format'', S (output_ext v)),
                (''error'', S (take 500 (drop 19 m))), (''client_ip'', S ip)]]
      | _ \<Rightarrow> [])"
  by (auto simp: job_body_def Let_def log_event_def no_output_not_failed [symmetric] length_lit
      split: sum.splits process.splits option.splits list.splits node.splits
      dest: stage_input_uncaught)

lemma with_tmpdir_log:
  "logged (snd (with_tmpdir env cfg ip v w)) = logged w @
     (case fst (with_tmpdir env cfg ip v w) of
        Raise (HTTPException st m) \<Rightarrow>
          if st = 504 then
            [log_record (lit ''conversion_timeout'')
               [(''input_format'', S (input_ext v)), (''output_format'', S (output_ext v)),
                (''input_size_bytes'', I (input_size v)), (''client_ip'', S ip)]]
          else if m = lit ''Conversion produced no output'' then []
          else
            [log_record (lit ''conversion_error'')
               [(''input_format'', S (input_ext v)), (''output_format'', S (output_ext v)),
                (''error'', S (take 500 (drop 19 m))), (''client_ip'', S ip)]]
      | _ \<Rightarrow> [])"
proof (cases "mkdtemp env (disk w)")
  case None
  then show ?thesis by (simp add: with_tmpdir_def)
next
  case (Some d)
  show ?thesis
  proof (cases "disk w d = None")
    case False
    with Some show ?thesis by (auto simp: with_tmpdir_def)
  next
    case True
    with Some job_body_log [of env cfg ip v d "w\<lparr>disk := (disk w)(d \<mapsto> [])\<rparr>"]
    show ?thesis by (simp add: with_tmpdir_def Let_def)
  qed
qed

lemma with_semaphore_log:
  "logged (snd (with_semaphore env cfg ip v w)) = logged w @
     (case fst (with_semaphore env cfg ip v w) of
        Raise (HTTPException st m) \<Rightarrow>
          if st = 504 then
            [log_record (lit ''conversion_timeout'')
               [(''input_format'', S (input_ext v)), (''output_format'', S (output_ext v)),
                (''input_size_bytes'', I (input_size v)), (''client_ip'', S ip)]]
          else if m = lit ''Conversion produced no output'' then []
          else
            [log_record (lit ''conversion_error'')
               [(''input_format'', S (input_ext v)), (''output_format'', S (output_ext v)),
                (''error'', S (take 500 (drop 19 m))), (''client_ip'', S ip)]]
      | _ \<Rightarrow> [])"
proof (cases "acquire (conversion_semaphore w)")
  case (Queued s)
  then show ?thesis by (simp add: with_semaphore_def)
next
  case (Acquired s)
  with with_tmpdir_log [of env cfg ip v "w\<lparr>conversion_semaphore := s\<rparr>"]
  show ?thesis by (simp add: with_semaphore_def Let_def)
qed

lemma convert_log:
  assumes "validate cfg file to = Inr v"
  shows "logged (snd (convert env cfg ip file to w)) = logged w @
     (case fst (convert env cfg ip file to w) of
        Return r \<Rightarrow>
          [log_record (lit ''conversion_complete'')
             [(''input_format'', S (input_ext v)), (''output_format'', S (output_ext v)),
              (''input_size_bytes'', I (input_size v)),
              (''output_size_bytes'', I (int (length (content r)))),
              (''duration_ms'', I (duration_ms env)), (''client_ip'', S ip)]]
      | Raise (HTTPException st m) \<Rightarrow>
          if st = 504 then
            [log_record (lit ''conversion_timeout'')
               [(''input_format'', S (input_ext v)), (''output_format'', S (output_ext v)),
                (''input_size_bytes'', I (input_size v)), (''client_ip'', S ip)]]
          else if st = 429 \<or> m = lit ''Conversion produced no output'' then []
          else
            [log_record (lit ''conversion_error'')
               [(''input_format'', S (input_ext v)), (''output_format'', S (output_ext v)),
                (''error'', S (take 500 (drop 19 m))), (''client_ip'', S ip)]]
      | _ \<Rightarrow> [])"
proof (cases "can_proceed (conversion_semaphore w)")
  case False
  with assms show ?thesis by (simp add: convert_def)
next
  case True
  have st: "\<And>st m. fst (with_semaphore env cfg ip v w) = Raise (HTTPException st m) \<Longrightarrow> st \<noteq> 429"
    using with_semaphore_status [of env cfg ip v w] by fastforce
  show ?thesis
  proof (cases "fst (with_semaphore env cfg ip v w)")
    case (Return data)
    with assms True with_semaphore_log [of env cfg ip v w]
    show ?thesis by (simp add: convert_def Let_def log_event_def)
  next
    case (Raise e)
    show ?thesis
    proof (cases e)
      case (HTTPException st m)
      with Raise st have "st \<noteq> 429" by simp
      with assms True Raise HTTPException with_semaphore_log [of env cfg ip v w]
      show ?thesis by (simp add: convert_def Let_def)
    next
      case (Uncaught c)
      with assms True Raise with_semaphore_log [of env cfg ip v w]
      show ?thesis by (simp add: convert_def Let_def)
    qed
  next
    case Wait
    with assms True with_semaphore_log [of env cfg ip v w]
    show ?thesis by (simp add: convert_def Let_def)
  qed
qed

lemma emitted_invalid: "validate cfg file to = Inl e \<Longrightarrow> emitted env cfg ip file to w = []"
  by (simp add: emitted_def convert_invalid)

text \<open>
  C1, as the handler has it. One call of \<open>convert\<close> emits at most one outcome record. It emits
  exactly one, with the fields of the source, when the conversion succeeds
  (\<open>conversion_complete\<close>), when the engine runs out of time (\<open>conversion_timeout\<close>) and when
  the engine fails with a decodable error text (\<open>conversion_error\<close>, the text cut to its first
  500 characters). It emits none when the request is refused with the 429.
\<close>

theorem C1_outcome_events:
  "length (emitted env cfg ip file to w) \<le> 1
   \<and> (fst (convert env cfg ip file to w) = Raise (HTTPException 429 m) \<longrightarrow>
        emitted env cfg ip file to w = [])
   \<and> (validate cfg file to = Inr v \<and> fst (convert env cfg ip file to w) = Return r \<longrightarrow>
        emitted env cfg ip file to w =
          [log_record (lit ''conversion_complete'')
             [(''input_format'', S (input_ext v)), (''output_format'', S (output_ext v)),
              (''input_size_bytes'', I (input_size v)),
              (''output_size_bytes'', I (int (length (content r)))),
              (''duration_ms'', I (duration_ms env)), (''client_ip'', S ip)]])
   \<and> (validate cfg file to = Inr v
        \<and> fst (convert env cfg ip file to w) = Raise (HTTPException 504 m) \<longrightarrow>
        emitted env cfg ip file to w =
          [log_record (lit ''conversion_timeout'')
             [(''input_format'', S (input_ext v)), (''output_format'', S (output_ext v)),
              (''input_size_bytes'', I (input_size v)), (''client_ip'', S ip)]])
   \<and> (validate cfg file to = Inr v
        \<and> fst (convert env cfg ip file to w) =
            Raise (HTTPException 500 (lit ''Conversion failed: '' @ text)) \<longrightarrow>
        emitted env cfg ip file to w =
          [log_record (lit ''conversion_error'')
             [(''input_format'', S (input_ext v)), (''output_format'', S (output_ext v)),
              (''error'', S (take 500 text)), (''client_ip'', S ip)]])"
proof (cases "validate cfg file to")
  case (Inl e)
  then show ?thesis by (simp add: emitted_invalid convert_invalid)
next
  case (Inr v')
  note log = convert_log [OF Inr, of env ip w]
  have one: "length (emitted env cfg ip file to w) \<le> 1"
    unfolding emitted_def log by (simp split: result.splits exn.splits)
  have rej: "fst (convert env cfg ip file to w) = Raise (HTTPException 429 m) \<longrightarrow>
        emitted env cfg ip file to w = []"
    unfolding emitted_def log by simp
  have ok: "fst (convert env cfg ip file to w) = Return r \<longrightarrow>
        emitted env cfg ip file to w =
          [log_record (lit ''conversion_complete'')
             [(''input_format'', S (input_ext v')), (''output_format'', S (output_ext v')),
              (''input_size_bytes'', I (input_size v')),
              (''output_size_bytes'', I (int (length (content r)))),
              (''duration_ms'', I (duration_ms env)), (''client_ip'', S ip)]]"
    unfolding emitted_def log by simp
  have tmo: "fst (convert env cfg ip file to w) = Raise (HTTPException 504 m) \<longrightarrow>
        emitted env cfg ip file to w =
          [log_record (lit ''conversion_timeout'')
             [(''input_format'', S (input_ext v')), (''output_format'', S (output_ext v')),
              (''input_size_bytes'', I (input_size v')), (''client_ip'', S ip)]]"
    unfolding emitted_def log by simp
  have err: "fst (convert env cfg ip file to w) =
            Raise (HTTPException 500 (lit ''Conversion failed: '' @ text)) \<longrightarrow>
        emitted env cfg ip file to w =
          [log_record (lit ''conversion_error'')
             [(''input_format'', S (input_ext v')), (''output_format'', S (output_ext v')),
              (''error'', S (take 500 text)), (''client_ip'', S ip)]]"
    unfolding emitted_def log
    by (simp add: no_output_not_failed [symmetric] length_lit)
  from one rej ok tmo err Inr show ?thesis by simp
qed

theorem C1_success_witness:
  "emitted (env_with (writes_pdf [37, 80, 68, 70])) default_config (lit ''10.0.0.1'')
       report_docx (lit ''pdf'') idle_world =
     [log_record (lit ''conversion_complete'')
        [(''input_format'', S (lit ''docx'')), (''output_format'', S (lit ''pdf'')),
         (''input_size_bytes'', I 4), (''output_size_bytes'', I 4),
         (''duration_ms'', I 1200), (''client_ip'', S (lit ''10.0.0.1''))]]
   \<and> emitted (env_with times_out) default_config (lit ''10.0.0.1'')
       report_docx (lit ''pdf'') idle_world =
     [log_record (lit ''conversion_timeout'')
        [(''input_format'', S (lit ''docx'')), (''output_format'', S (lit ''pdf'')),
         (''input_size_bytes'', I 4), (''client_ip'', S (lit ''10.0.0.1''))]]"
proof -
  have a: "emitted (env_with (writes_pdf [37, 80, 68, 70])) default_config (lit ''10.0.0.1'')
       report_docx (lit ''pdf'') idle_world =
     [log_record (lit ''conversion_complete'')
        [(''input_format'', S (lit ''docx'')), (''output_format'', S (lit ''pdf'')),
         (''input_size_bytes'', I 4), (''output_size_bytes'', I 4),
         (''duration_ms'', I 1200), (''client_ip'', S (lit ''10.0.0.1''))]]"
    using validate_report
      convert_report_success [of "[37, 80, 68, 70]" "lit ''10.0.0.1''"]
      C1_outcome_events [of "env_with (writes_pdf [37, 80, 68, 70])" default_config
        "lit ''10.0.0.1''" report_docx "lit ''pdf''" idle_world "[]" report_to_pdf
        "\<lparr>content = [37, 80, 68, 70], media_type = lit ''application/pdf'',
          content_disposition =
            lit ''attachment; filename='' @ [34] @ lit ''report.pdf'' @ [34]\<rparr>" "[]"]
    by (simp add: report_to_pdf_def env_with_simps)
  have b: "emitted (env_with times_out) default_config (lit ''10.0.0.1'')
       report_docx (lit ''pdf'') idle_world =
     [log_record (lit ''conversion_timeout'')
        [(''input_format'', S (lit ''docx'')), (''output_format'', S (lit ''pdf'')),
         (''input_size_bytes'', I 4), (''client_ip'', S (lit ''10.0.0.1''))]]"
    using validate_report convert_report_timeout [of "lit ''10.0.0.1''"]
      C1_outcome_events [of "env_with times_out" default_config
        "lit ''10.0.0.1''" report_docx "lit ''pdf''" idle_world "lit ''Conversion timed out''"
        report_to_pdf
        "\<lparr>content = [], media_type = [], content_disposition = []\<rparr>" "[]"]
    by (simp add: report_to_pdf_def)
  from a b show ?thesis by blast
qed

text \<open>
  A request that is refused for want of a permit leaves no record: with no permit free,
  \<open>report.docx\<close> to \<open>pdf\<close> is answered with the 429 and the log is as it was.
\<close>

theorem C1_rejection_counterexample:
  "fst (convert (env_with writes_nothing) default_config (lit ''10.0.0.1'') report_docx
         (lit ''pdf'') busy_world) =
     Raise (HTTPException 429 (lit ''Too many concurrent requests. Please retry later.''))
   \<and> emitted (env_with writes_nothing) default_config (lit ''10.0.0.1'') report_docx
         (lit ''pdf'') busy_world = []"
  by (simp add: emitted_def convert_report_busy)

text \<open>Nor does a run in which the engine exits with status 0 and writes no output.\<close>

lemma no_output_emits_nothing:
  "fst (convert (env_with writes_nothing) default_config (lit ''10.0.0.1'') report_docx
         (lit ''pdf'') idle_world) =
     Raise (HTTPException 500 (lit ''Conversion produced no output''))
   \<and> emitted (env_with writes_nothing) default_config (lit ''10.0.0.1'') report_docx
         (lit ''pdf'') idle_world = []"
  by (simp add: emitted_def convert_report_nothing)

section \<open>Removal of the scratch directory\<close>

lemma with_tmpdir_removes:
  "mkdtemp env (disk w) = Some d \<Longrightarrow> disk w d = None \<Longrightarrow>
   disk (snd (with_tmpdir env cfg ip v w)) d = None"
  by (simp add: with_tmpdir_def Let_def rmtree_def)

lemma with_semaphore_disk:
  "disk (snd (with_semaphore env cfg ip v w)) =
     (case acquire (conversion_semaphore w) of
        Queued s \<Rightarrow> disk w
      | Acquired s \<Rightarrow> disk (snd (with_tmpdir env cfg ip v (w\<lparr>conversion_semaphore := s\<rparr>))))"
  by (simp add: with_semaphore_def Let_def split: acquisition.splits)

lemma convert_disk:
  "disk (snd (convert env cfg ip file to w)) = disk w
   \<or> (\<exists>v s. disk (snd (convert env cfg ip file to w)) =
         disk (snd (with_tmpdir env cfg ip v (w\<lparr>conversion_semaphore := s\<rparr>))))"
  by (auto simp: convert_def Let_def log_event_def with_semaphore_disk
      split: sum.splits result.splits acquisition.splits)

text \<open>
  C3. When \<open>mkdtemp\<close> makes the scratch directory (it hands out a name that is not taken),
  the directory is gone from the file system when the \<open>with\<close> block is left and when
  \<open>convert\<close> returns or raises, whatever the engine did and however the job ended.
\<close>

theorem C3_scratch_directory_removed:
  "(mkdtemp env (disk w) = Some d \<and> disk w d = None \<longrightarrow>
      disk (snd (with_tmpdir env cfg ip v w)) d = None)
   \<and> (mkdtemp env (disk w) = Some d \<and> disk w d = None \<longrightarrow>
      disk (snd (convert env cfg ip file to w)) d = None)"
proof (intro conjI impI)
  assume "mkdtemp env (disk w) = Some d \<and> disk w d = None"
  then show "disk (snd (with_tmpdir env cfg ip v w)) d = None"
    by (simp add: with_tmpdir_removes)
next
  assume a: "mkdtemp env (disk w) = Some d \<and> disk w d = None"
  from convert_disk [of env cfg ip "file" to w]
  show "disk (snd (convert env cfg ip file to w)) d = None"
  proof
    assume "disk (snd (convert env cfg ip file to w)) = disk w"
    with a show ?thesis by simp
  next
    assume "\<exists>v s. disk (snd (convert env cfg ip file to w)) =
         disk (snd (with_tmpdir env cfg ip v (w\<lparr>conversion_semaphore := s\<rparr>)))"
    then obtain v s where "disk (snd (convert env cfg ip file to w)) =
         disk (snd (with_tmpdir env cfg ip v (w\<lparr>conversion_semaphore := s\<rparr>)))"
      by blast
    with a with_tmpdir_removes [of env "w\<lparr>conversion_semaphore := s\<rparr>" d cfg ip v]
    show ?thesis by simp
  qed
qed

theorem C3_every_exit_witness:
  "disk (snd (convert (env_with (writes_pdf [37, 80, 68, 70])) default_config (lit ''10.0.0.1'')
       report_docx (lit ''pdf'') idle_world)) scratch = None
   \<and> fst (convert (env_with (writes_pdf [37, 80, 68, 70])) default_config (lit ''10.0.0.1'')
       report_docx (lit ''pdf'') idle_world) =
     Return \<lparr>content = [37, 80, 68, 70], media_type = lit ''application/pdf'',
          content_disposition =
            lit ''attachment; filename='' @ [34] @ lit ''report.pdf'' @ [34]\<rparr>
   \<and> disk (snd (convert (env_with times_out) default_config (lit ''10.0.0.1'')
       report_docx (lit ''pdf'') idle_world)) scratch = None
   \<and> fst (convert (env_with times_out) default_config (lit ''10.0.0.1'')
       report_docx (lit ''pdf'') idle_world) =
     Raise (HTTPException 504 (lit ''Conversion timed out''))
   \<and> disk (snd (convert (env_with (fails_with 1 [255])) default_config (lit ''10.0.0.1'')
       report_docx (lit ''pdf'') idle_world)) scratch = None
   \<and> fst (convert (env_with (fails_with 1 [255])) default_config (lit ''10.0.0.1'')
       report_docx (lit ''pdf'') idle_world) = Raise (Uncaught ''UnicodeDecodeError'')"
proof -
  have f: "\<And>e. mkdtemp (env_with e) (disk idle_world) = Some scratch \<and> disk idle_world scratch = None"
    by (simp add: env_with_simps idle_world_def)
  have a: "disk (snd (convert (env_with (writes_pdf [37, 80, 68, 70])) default_config
       (lit ''10.0.0.1'') report_docx (lit ''pdf'') idle_world)) scratch = None"
    using f C3_scratch_directory_removed [of "env_with (writes_pdf [37, 80, 68, 70])" idle_world
        scratch default_config "lit ''10.0.0.1''" report_to_pdf report_docx "lit ''pdf''"]
    by blast
  have b: "disk (snd (convert (env_with times_out) default_config
       (lit ''10.0.0.1'') report_docx (lit ''pdf'') idle_world)) scratch = None"
    using f C3_scratch_directory_removed [of "env_with times_out" idle_world
        scratch default_config "lit ''10.0.0.1''" report_to_pdf report_docx "lit ''pdf''"]
    by blast
  have c: "disk (snd (convert (env_with (fails_with 1 [255])) default_config
       (lit ''10.0.0.1'') report_docx (lit ''pdf'') idle_world)) scratch = None"
    using f C3_scratch_directory_removed [of "env_with (fails_with 1 [255])" idle_world
        scratch default_config "lit ''10.0.0.1''" report_to_pdf report_docx "lit ''pdf''"]
    by blast
  from a b c show ?thesis
    by (simp add: convert_report_success convert_report_timeout convert_report_undecodable)
qed

section \<open>Engine failures\<close>

lemma engine_error_decodable:
  assumes "stage_input env (disk w) d (input_name v) (file_content v) = Inr f1"
    and "fst (engine env (engine_argv v d) (TIMEOUT cfg) f1) = CompletedProcess rc err"
    and "rc \<noteq> 0" and "decode err = Some text"
  shows "fst (job_body env cfg ip v d w) =
           Raise (HTTPException 500 (lit ''Conversion failed: '' @ text))
     \<and> logged (snd (job_body env cfg ip v d w)) = logged w @
          [log_record (lit ''conversion_error'')
             [(''input_format'', S (input_ext v)), (''output_format'', S (output_ext v)),
              (''error'', S (take 500 text)), (''client_ip'', S ip)]]"
  using assms by (simp add: job_body_def Let_def log_event_def)

lemma engine_error_undecodable:
  assumes "stage_input env (disk w) d (input_name v) (file_content v) = Inr f1"
    and "fst (engine env (engine_argv v d) (TIMEOUT cfg) f1) = CompletedProcess rc err"
    and "rc \<noteq> 0" and "decode err = None"
  shows "fst (job_body env cfg ip v d w) = Raise (Uncaught ''UnicodeDecodeError'')
     \<and> logged (snd (job_body env cfg ip v d w)) = logged w"
  using assms by (simp add: job_body_def Let_def)

text \<open>
  C6 asks that an engine which exits with a status other than 0 makes the request fail with
  the engine error, the diagnostic being at most the first 500 characters of the error
  stream. The handler decodes the error stream as strict UTF-8 while it builds the log
  record. For the status 1 and the error stream \<open>FF\<close>, which is not UTF-8, the decoding
  raises, and the request ends with \<open>UnicodeDecodeError\<close> and no record instead.
\<close>

theorem C6_undecodable_stderr:
  "fst (convert (env_with (fails_with 1 [255])) default_config (lit ''10.0.0.1'') report_docx
         (lit ''pdf'') idle_world) = Raise (Uncaught ''UnicodeDecodeError'')
   \<and> emitted (env_with (fails_with 1 [255])) default_config (lit ''10.0.0.1'') report_docx
         (lit ''pdf'') idle_world = []"
  by (simp add: emitted_def convert_report_undecodable)

section \<open>The file that is read back\<close>

lemma rfind_from_last:
  "c \<notin> set s \<Longrightarrow> rfind_from c (pre @ c # s) i r = i + int (length pre)"
  by (induction pre arbitrary: i r) (simp_all add: rfind_from_absent)

lemma name_suffix_last_dot:
  assumes "dot \<notin> set oe" and "oe \<noteq> []"
  shows "name_suffix (pre @ dot # oe) = (if pre = [] then [] else dot # oe)"
proof -
  have "rfind dot (pre @ dot # oe) = int (length pre)"
    using assms(1) by (simp add: rfind_def rfind_from_last)
  moreover have "int (length pre) < int (length (pre @ dot # oe)) - 1"
    using assms(2) by (cases oe) simp_all
  ultimately show ?thesis by (simp add: name_suffix_def)
qed

lemma endswith_split: "endswith s t \<Longrightarrow> \<exists>pre. s = pre @ t"
  unfolding endswith_def by (metis append_take_drop_id)

lemma letters_plain:
  assumes "letters s"
  shows "dot \<notin> set s" and "lower s = s"
proof -
  from assms show "dot \<notin> set s" by (auto simp: letters_def)
  from assms have "\<forall>c \<in> set s. lower_cp c = c" by (auto simp: letters_def lower_cp_def)
  then show "lower s = s" by (simp add: lower_def map_idI)
qed

lemma table_plain:
  "\<forall>row \<in> set list_formats. letters (fst row) \<and> fst row \<noteq> []
      \<and> (\<forall>oe \<in> set (snd row). letters oe \<and> oe \<noteq> [] \<and> oe \<noteq> fst row)"
  unfolding list_formats_eq by (simp add: letters_def lit_def)

lemma outputs_in_table:
  assumes "oe \<in> set (keys (outputs_of ie))"
  shows "\<exists>row \<in> set list_formats. fst row = ie \<and> oe \<in> set (snd row)"
proof (cases "map_of list_formats ie")
  case None
  with assms show ?thesis by (simp add: keys_outputs_of)
next
  case (Some ks)
  then have "(ie, ks) \<in> set list_formats" by (rule map_of_SomeD)
  moreover from Some assms have "oe \<in> set ks" by (simp add: keys_outputs_of)
  ultimately show ?thesis by force
qed

lemma pair_plain:
  assumes "oe \<in> set (keys (outputs_of ie))"
  shows "letters oe \<and> oe \<noteq> [] \<and> oe \<noteq> ie \<and> letters ie \<and> ie \<noteq> []"
  using outputs_in_table [OF assms] table_plain by blast

lemma validate_Inr_raw:
  assumes "validate cfg file to = Inr v"
  shows "filename file = Some (input_name v) \<and> input_name v \<noteq> []
    \<and> input_ext v = lstrip dot (lower (path_suffix (input_name v)))
    \<and> input_ext v \<in> set (keys CONVERSIONS)
    \<and> output_ext v = lstrip dot (lower to)
    \<and> map_of (outputs_of (input_ext v)) (output_ext v) = Some (filter_name v, mime_type v)
    \<and> file_content v = body file \<and> input_size v = int (length (body file))
    \<and> input_size v \<le> MAX_FILE_SIZE cfg"
  using assms
  by (auto simp: validate_def check_pair_def get_input_ext_def Let_def
      split: option.splits sum.splits if_splits prod.splits)

lemma validate_Inr:
  assumes "validate cfg file to = Inr v"
  shows "filename file = Some (input_name v)" and "input_name v \<noteq> []"
    and "input_ext v = lstrip dot (lower (path_suffix (input_name v)))"
    and "input_ext v \<in> set (keys CONVERSIONS)"
    and "output_ext v = lstrip dot (lower to)"
    and "output_ext v \<in> set (keys (outputs_of (input_ext v)))"
    and "map_of (outputs_of (input_ext v)) (output_ext v) = Some (filter_name v, mime_type v)"
    and "file_content v = body file" and "input_size v = int (length (body file))"
    and "input_size v \<le> MAX_FILE_SIZE cfg"
proof -
  note r = validate_Inr_raw [OF assms]
  from r show "filename file = Some (input_name v)" by blast
  from r show "input_name v \<noteq> []" by blast
  from r show "input_ext v = lstrip dot (lower (path_suffix (input_name v)))" by blast
  from r show "input_ext v \<in> set (keys CONVERSIONS)" by blast
  from r show "output_ext v = lstrip dot (lower to)" by blast
  from r show m: "map_of (outputs_of (input_ext v)) (output_ext v) = Some (filter_name v, mime_type v)"
    by blast
  from m show "output_ext v \<in> set (keys (outputs_of (input_ext v)))"
    using map_of_keys [of "outputs_of (input_ext v)" "output_ext v"] by simp
  from r show "file_content v = body file" by blast
  from r show "input_size v = int (length (body file))" by blast
  from r show "input_size v \<le> MAX_FILE_SIZE cfg" by blast
qed

lemma validated_no_match:
  assumes "validate cfg file to = Inr v"
  shows "\<not> glob_match (output_ext v) (path_name (input_name v))"
proof
  let ?oe = "output_ext v" and ?ie = "input_ext v" and ?n = "path_name (input_name v)"
  assume "glob_match ?oe ?n"
  then obtain pre where n: "?n = pre @ dot # ?oe"
    using endswith_split by (auto simp: glob_match_def)
  have ie: "?ie = lstrip dot (lower (name_suffix ?n))"
    using validate_Inr(3) [OF assms] by (simp add: path_suffix_def)
  have oe: "?oe \<in> set (keys (outputs_of ?ie))"
    by (rule validate_Inr(6) [OF assms])
  from pair_plain [OF oe] have p: "letters ?oe" "?oe \<noteq> []" "?oe \<noteq> ?ie" "?ie \<noteq> []"
    by simp_all
  from p(1) have d: "dot \<notin> set ?oe" and l: "lower ?oe = ?oe"
    by (rule letters_plain)+
  have s: "name_suffix ?n = (if pre = [] then [] else dot # ?oe)"
    unfolding n using d p(2) by (rule name_suffix_last_dot)
  show False
  proof (cases "pre = []")
    case True
    with s ie have "?ie = []" by (simp add: lower_def lstrip_def)
    with p(4) show False by simp
  next
    case False
    from d p(2) have "dropWhile (\<lambda>x. x = dot) ?oe = ?oe"
      by (cases ?oe) auto
    with False s ie l have "?ie = ?oe"
      by (simp add: lower_def lstrip_def lower_cp_def)
    with p(3) show False by simp
  qed
qed

lemma write_file_listing:
  assumes "write_file f d' name data = Inr f1" and "f d = Some []"
  shows "\<exists>l. f1 d = Some l \<and> fst ` set l \<subseteq> {name}"
proof -
  from assms(1) obtain l' where l': "f d' = Some l'"
    and f1: "f1 = f(d' \<mapsto> AList.update name (File data) l')"
    by (auto simp: write_file_def split: option.splits node.splits)
  show ?thesis
  proof (cases "d' = d")
    case True
    with l' assms(2) f1 show ?thesis by simp
  next
    case False
    with assms(2) f1 show ?thesis by simp
  qed
qed

lemma stage_input_listing:
  assumes "stage_input env f d fname data = Inr f1" and "f d = Some []"
  shows "\<exists>l. f1 d = Some l \<and> fst ` set l \<subseteq> {path_name fname}"
  using assms
  by (auto simp: stage_input_def split: if_splits option.splits
      dest!: write_file_listing [where d = d])

lemma job_body_Return:
  assumes "fst (job_body env cfg ip v d w) = Return data"
  shows "\<exists>f1 n rest err.
      stage_input env (disk w) d (input_name v) (file_content v) = Inr f1
      \<and> fst (engine env (engine_argv v d) (TIMEOUT cfg) f1) = CompletedProcess 0 err
      \<and> glob_ext (snd (engine env (engine_argv v d) (TIMEOUT cfg) f1)) d (output_ext v) =
          (n, File data) # rest"
  using assms
  by (auto simp: job_body_def Let_def
      split: sum.splits process.splits option.splits list.splits node.splits if_splits)

lemma glob_ext_hd:
  "glob_ext f d ext = (n, x) # rest \<Longrightarrow> glob_match ext n"
proof -
  assume a: "glob_ext f d ext = (n, x) # rest"
  then obtain l where "filter (\<lambda>e. glob_match ext (fst e)) l = (n, x) # rest"
    by (auto simp: glob_ext_def split: option.splits)
  then have "(n, x) \<in> set (filter (\<lambda>e. glob_match ext (fst e)) l)" by simp
  then show "glob_match ext n" by simp
qed

lemma with_tmpdir_Return:
  assumes "fst (with_tmpdir env cfg ip v w) = Return data"
  shows "\<exists>d. mkdtemp env (disk w) = Some d \<and> disk w d = None
     \<and> fst (job_body env cfg ip v d (w\<lparr>disk := (disk w)(d \<mapsto> [])\<rparr>)) = Return data"
  using assms
  by (auto simp: with_tmpdir_def Let_def split: option.splits if_splits)

lemma with_semaphore_Return:
  assumes "fst (with_semaphore env cfg ip v w) = Return data"
  shows "\<exists>s. fst (with_tmpdir env cfg ip v (w\<lparr>conversion_semaphore := s\<rparr>)) = Return data"
  using assms
  by (auto simp: with_semaphore_def Let_def split: acquisition.splits)

lemma convert_Return:
  assumes "fst (convert env cfg ip file to w) = Return r"
  shows "\<exists>v. validate cfg file to = Inr v
     \<and> fst (with_semaphore env cfg ip v w) = Return (content r)"
  using assms
  by (auto simp: convert_def Let_def split: sum.splits if_splits result.splits)

text \<open>
  C10. No input extension of the table contains a dot or is among its own outputs. For a
  validated request the output extension differs from the input extension, and the name under
  which the input is staged does not match the pattern \<open>*.output_ext\<close>. So when \<open>convert\<close>
  returns a response, its bytes are those of an entry of the scratch directory that matches
  the pattern after the engine has run, whose name is not the staged name and which was not
  in the directory when the engine started.
\<close>

theorem C10_output_is_engine_written:
  "(\<forall>ie \<in> set (keys CONVERSIONS). dot \<notin> set ie \<and> ie \<notin> set (keys (outputs_of ie)))
   \<and> (validate cfg file to = Inr v \<longrightarrow>
        output_ext v \<noteq> input_ext v \<and> dot \<notin> set (input_ext v)
        \<and> \<not> glob_match (output_ext v) (path_name (input_name v)))
   \<and> (fst (convert env cfg ip file to w) = Return r \<longrightarrow>
        (\<exists>u d f1 n rest l.
           validate cfg file to = Inr u \<and> mkdtemp env (disk w) = Some d
           \<and> stage_input env ((disk w)(d \<mapsto> [])) d (input_name u) (file_content u) = Inr f1
           \<and> glob_ext (snd (engine env (engine_argv u d) (TIMEOUT cfg) f1)) d (output_ext u)
               = (n, File (content r)) # rest
           \<and> n \<noteq> path_name (input_name u)
           \<and> f1 d = Some l \<and> map_of l n = None))"
proof (intro conjI impI ballI)
  fix ie assume k: "ie \<in> set (keys CONVERSIONS)"
  then have "ie \<in> set (keys list_formats)" by (simp add: keys_list_formats)
  then obtain row where "row \<in> set list_formats" "fst row = ie"
    by (auto simp: keys_def)
  with table_plain have "letters ie" by blast
  then show "dot \<notin> set ie" by (rule letters_plain)
  from k no_self_pair show "ie \<notin> set (keys (outputs_of ie))" by blast
next
  assume a: "validate cfg file to = Inr v"
  from pair_plain [OF validate_Inr(6) [OF a]]
  show "output_ext v \<noteq> input_ext v" and "dot \<notin> set (input_ext v)"
    using letters_plain(1) by blast+
  from a show "\<not> glob_match (output_ext v) (path_name (input_name v))"
    by (rule validated_no_match)
next
  assume "fst (convert env cfg ip file to w) = Return r"
  from convert_Return [OF this] obtain u where u: "validate cfg file to = Inr u"
    and "fst (with_semaphore env cfg ip u w) = Return (content r)" by blast
  from with_semaphore_Return [OF this(2)] obtain s
    where "fst (with_tmpdir env cfg ip u (w\<lparr>conversion_semaphore := s\<rparr>)) = Return (content r)"
    by blast
  from with_tmpdir_Return [OF this] obtain d where d: "mkdtemp env (disk w) = Some d"
    and "fst (job_body env cfg ip u d
           (w\<lparr>conversion_semaphore := s, disk := (disk w)(d \<mapsto> [])\<rparr>)) = Return (content r)"
    by auto
  from job_body_Return [OF this(2)] obtain f1 n rest
    where st: "stage_input env ((disk w)(d \<mapsto> [])) d (input_name u) (file_content u) = Inr f1"
      and g: "glob_ext (snd (engine env (engine_argv u d) (TIMEOUT cfg) f1)) d (output_ext u)
               = (n, File (content r)) # rest"
    by auto
  from g have "glob_match (output_ext u) n" by (rule glob_ext_hd)
  with validated_no_match [OF u] have ne: "n \<noteq> path_name (input_name u)" by auto
  from stage_input_listing [OF st] obtain l where l: "f1 d = Some l"
    and "fst ` set l \<subseteq> {path_name (input_name u)}" by auto
  with ne have "map_of l n = None" by (auto simp: map_of_eq_None_iff)
  with u d st g ne l
  show "\<exists>u d f1 n rest l.
           validate cfg file to = Inr u \<and> mkdtemp env (disk w) = Some d
           \<and> stage_input env ((disk w)(d \<mapsto> [])) d (input_name u) (file_content u) = Inr f1
           \<and> glob_ext (snd (engine env (engine_argv u d) (TIMEOUT cfg) f1)) d (output_ext u)
               = (n, File (content r)) # rest
           \<and> n \<noteq> path_name (input_name u)
           \<and> f1 d = Some l \<and> map_of l n = None"
    by blast
qed

theorem C10_report_witness:
  "lit ''pdf'' \<noteq> lit ''docx''
   \<and> \<not> glob_match (lit ''pdf'') (path_name (lit ''report.docx''))
   \<and> (\<exists>u d f1 n rest l.
         validate default_config report_docx (lit ''pdf'') = Inr u
         \<and> mkdtemp (env_with (writes_pdf [37, 80, 68, 70])) (disk idle_world) = Some d
         \<and> stage_input (env_with (writes_pdf [37, 80, 68, 70])) ((disk idle_world)(d \<mapsto> [])) d
              (input_name u) (file_content u) = Inr f1
         \<and> glob_ext (snd (engine (env_with (writes_pdf [37, 80, 68, 70])) (engine_argv u d)
                (TIMEOUT default_config) f1)) d (output_ext u)
               = (n, File [37, 80, 68, 70]) # rest
         \<and> n \<noteq> path_name (input_name u)
         \<and> f1 d = Some l \<and> map_of l n = None)"
proof -
  note t = C10_output_is_engine_written [of default_config report_docx "lit ''pdf''"
      report_to_pdf "env_with (writes_pdf [37, 80, 68, 70])" "lit ''10.0.0.1''" idle_world
      "\<lparr>content = [37, 80, 68, 70], media_type = lit ''application/pdf'',
          content_disposition =
            lit ''attachment; filename='' @ [34] @ lit ''report.pdf'' @ [34]\<rparr>"]
  from t validate_report have "lit ''pdf'' \<noteq> lit ''docx''
     \<and> \<not> glob_match (lit ''pdf'') (path_name (lit ''report.docx''))"
    by (simp add: report_to_pdf_def)
  moreover from t convert_report_success [of "[37, 80, 68, 70]" "lit ''10.0.0.1''"]
  have "\<exists>u d f1 n rest l.
         validate default_config report_docx (lit ''pdf'') = Inr u
         \<and> mkdtemp (env_with (writes_pdf [37, 80, 68, 70])) (disk idle_world) = Some d
         \<and> stage_input (env_with (writes_pdf [37, 80, 68, 70])) ((disk idle_world)(d \<mapsto> [])) d
              (input_name u) (file_content u) = Inr f1
         \<and> glob_ext (snd (engine (env_with (writes_pdf [37, 80, 68, 70])) (engine_argv u d)
                (TIMEOUT default_config) f1)) d (output_ext u)
               = (n, File [37, 80, 68, 70]) # rest
         \<and> n \<noteq> path_name (input_name u)
         \<and> f1 d = Some l \<and> map_of l n = None"
    by simp
  ultimately show ?thesis by blast
qed

end
